theory Spec2Isabelle
  imports Complex_Main
begin

section \<open>Numbers and currency rounding\<close>

text \<open>
  The engine computes on JavaScript numbers.  They are modelled as real numbers with exact
  arithmetic: the representation error of IEEE doubles, \<open>NaN\<close> and the infinities are
  outside the model, except where a division by zero decides a branch (see
  \<open>deviationOverTen\<close> below), which is written out.

  \<open>currency\<close> is \<open>Number(value.toFixed(2))\<close>.  \<open>toFixed\<close> takes the sign off a negative
  argument, picks the integer \<open>n\<close> with \<open>n / 100\<close> closest to the argument, the larger
  one on a tie, and prints \<open>n / 100\<close> with the sign in front.
\<close>

definition currency :: "real \<Rightarrow> real" where
  "currency v =
     (if v < 0 then - (of_int \<lfloor>(- v) * 100 + 1 / 2\<rfloor> / 100)
      else of_int \<lfloor>v * 100 + 1 / 2\<rfloor> / 100)"

text \<open>A whole number of cents.\<close>

definition is_cents :: "real \<Rightarrow> bool" where
  "is_cents v = (of_int \<lfloor>v * 100\<rfloor> = v * 100)"

section \<open>Data model and rule options (frontend/src/types/trid.ts)\<close>

datatype RowStatus = PASS | FAIL | REVIEW

datatype GroupStatus = GROUP_PASS | OVER

datatype ToleranceFlag =
    ZERO_LINE_OVERAGE
  | SECTION_PLACEMENT_MISMATCH
  | PROVIDER_OFF_LIST
  | LOW_CONFIDENCE
  | OFF_LIST_EXCLUDED
  | PER_DIEM_OUTLIER
  | ESCROW_CUSHION_EXCEEDED
  | OPTIONALITY_MISMATCH
  | CURED_BY_LENDER
  | PER_DIEM_INTEREST_DEVIATION

datatype Severity = Error | Warning

text \<open>
  The label of a flag is a template string with numbers printed into it.  The model keeps
  the template and the numbers handed to it; printing a number as text (\<open>toFixed\<close>,
  \<open>Intl.NumberFormat\<close>) is not modelled.
\<close>

datatype FlagLabel =
    ZeroOverageLabel real
      \<comment> \<open>\<open>Borrower owes $\<dots> over zero tolerance\<close>, of \<open>delta - zeroThreshold\<close>\<close>
  | PlacementLabel
      \<comment> \<open>\<open>Fee marked permitted-to-shop but placed in zero bucket\<close>\<close>
  | ZeroCuredLabel real
      \<comment> \<open>\<open>Overage offset by lender credit ($\<dots>)\<close>, of \<open>lenderCredits\<close>\<close>
  | OffListLabel
      \<comment> \<open>\<open>Provider chosen off-list; unlimited tolerance\<close>\<close>
  | LowConfidenceLabel int
      \<comment> \<open>\<open>Match confidence \<dots>% - Review\<close>, of \<open>Math.round(matchConfidence * 100)\<close>\<close>
  | TenCuredLabel real
      \<comment> \<open>\<open>10% overage offset by lender credit ($\<dots>)\<close>, of \<open>lenderCredits\<close>\<close>
  | PerDiemOutlierLabel real
      \<comment> \<open>\<open>\<dots> per-diem days recorded\<close>\<close>
  | PerDiemDeviationLabel real real
      \<comment> \<open>\<open>Expected \<dots>, actual \<dots> (\<dots>% deviation)\<close>, of \<open>expectedPerDiem\<close> and
         \<open>cd.borrower\<close>; the percentage printed is computed from these two\<close>
  | EscrowLabel real
      \<comment> \<open>\<open>\<dots> months collected (max 2 permitted)\<close>\<close>
  | OptionalityLabel
      \<comment> \<open>\<open>Disclosed optional item appears lender-required\<close>\<close>

record FlagDetail =
  code :: ToleranceFlag
  label :: FlagLabel
  severity :: Severity
  details :: "string option"

definition buildFlag :: "ToleranceFlag \<Rightarrow> FlagLabel \<Rightarrow> Severity \<Rightarrow> string option \<Rightarrow> FlagDetail" where
  "buildFlag c l s d = \<lparr>code = c, label = l, severity = s, details = d\<rparr>"

record PayerSplit =
  borrower :: real
  seller :: "real option"
  other :: "real option"

text \<open>
  \<open>changeReason\<close> is free text on the raw-document path and a template on the pre-matched
  path (\<open>calculateChangeReason\<close>); as for flag labels the template and its number are kept.
\<close>

datatype ChangeReason =
    ReasonText string
  | NewFeeReason
  | NoChangeReason
  | IncreasedBy real
  | DecreasedBy real

text \<open>
  The envelope that the three fee shapes share.  The field \<open>id\<close> of the source is
  \<open>fee_id\<close> here.
\<close>

record ToleranceFee =
  fee_id :: string
  fee :: string
  le :: PayerSplit
  cd :: PayerSplit
  changeReason :: ChangeReason

record ZeroToleranceFee = ToleranceFee +
  permittedToShop :: "bool option"

datatype ProviderType = ProviderC | ProviderE

record TenPercentFee = ToleranceFee +
  provider :: string
  providerType :: ProviderType
  whitelistConfidence :: real
  onWhitelist :: bool
  matchConfidence :: real
  isRecording :: "bool option"

datatype UnlimitedBucket = BucketF | BucketG | BucketH

record UnlimitedFee = ToleranceFee +
  bucket :: UnlimitedBucket
  perDiemDays :: "real option"
  escrowMonths :: "real option"
  isOptional :: "bool option"
  lenderRequired :: "bool option"
  loanAmount :: "real option"
  interestRate :: "real option"

text \<open>
  A display row is \<open>{...row, delta, status, flags, \<dots>}\<close>: the input fee, kept whole in
  the field \<open>row\<close>, with the derived fields layered on top.
\<close>

record 'f DisplayRow =
  row :: 'f
  delta :: real
  status :: RowStatus
  flags :: "FlagDetail list"

record ZeroToleranceDisplayRow = "ZeroToleranceFee DisplayRow" +
  cureAmount :: real

record TenPercentDisplayRow = "TenPercentFee DisplayRow" +
  effectiveOnWhitelist :: bool
  inTenGroup :: bool

type_synonym UnlimitedDisplayRow = "UnlimitedFee DisplayRow"

record ZeroToleranceResult =
  rows_zero :: "ZeroToleranceDisplayRow list"
  subtotalLE :: real
  subtotalCD :: real
  passCount :: nat
  failCount :: nat
  reviewCount :: nat
  cureAmount_total :: real

record TenPercentResult =
  rows_ten :: "TenPercentDisplayRow list"
  leBase :: real
  cdTotal :: real
  allowedMax :: real
  overage :: real
  status_ten :: GroupStatus

text \<open>
  \<open>RuleOptions\<close>: every field optional, \<open>None\<close> for an absent key.  \<open>config_of\<close> is
  \<open>{ ...DEFAULTS, ...options }\<close>.
\<close>

record RuleOptions =
  zeroThreshold :: "real option"
  reviewConfidenceFloor :: "real option"
  reviewConfidenceCeil :: "real option"
  lenderCredits :: "real option"

record Config =
  cfgZeroThreshold :: real
  cfgReviewConfidenceFloor :: real
  cfgReviewConfidenceCeil :: real
  cfgLenderCredits :: real

definition DEFAULTS :: Config where
  "DEFAULTS = \<lparr>cfgZeroThreshold = 1, cfgReviewConfidenceFloor = 8 / 10,
     cfgReviewConfidenceCeil = 93 / 100, cfgLenderCredits = 0\<rparr>"

definition config_of :: "RuleOptions \<Rightarrow> Config" where
  "config_of options =
     \<lparr>cfgZeroThreshold =
        (case zeroThreshold options of Some v \<Rightarrow> v | None \<Rightarrow> cfgZeroThreshold DEFAULTS),
      cfgReviewConfidenceFloor =
        (case reviewConfidenceFloor options of Some v \<Rightarrow> v
         | None \<Rightarrow> cfgReviewConfidenceFloor DEFAULTS),
      cfgReviewConfidenceCeil =
        (case reviewConfidenceCeil options of Some v \<Rightarrow> v
         | None \<Rightarrow> cfgReviewConfidenceCeil DEFAULTS),
      cfgLenderCredits =
        (case lenderCredits options of Some v \<Rightarrow> v | None \<Rightarrow> cfgLenderCredits DEFAULTS)\<rparr>"

definition noOptions :: RuleOptions where
  "noOptions = \<lparr>zeroThreshold = None, reviewConfidenceFloor = None,
     reviewConfidenceCeil = None, lenderCredits = None\<rparr>"

text \<open>\<open>xs.reduce((sum, r) => sum + f(r), 0)\<close>.\<close>

definition reduce_sum :: "('a \<Rightarrow> real) \<Rightarrow> 'a list \<Rightarrow> real" where
  "reduce_sum f xs = foldl (\<lambda>sum r. sum + f r) 0 xs"

definition borrowerDelta :: "PayerSplit \<Rightarrow> PayerSplit \<Rightarrow> real" where
  "borrowerDelta l c = currency (borrower c - borrower l)"

section \<open>Zero-tolerance evaluator (frontend/src/types/trid.ts)\<close>

datatype ZeroBucket = BucketA | BucketB

text \<open>The body of \<open>rows.map\<close> in \<open>evaluateZeroTolerance\<close>.\<close>

definition zeroRow :: "ZeroBucket \<Rightarrow> Config \<Rightarrow> ZeroToleranceFee \<Rightarrow> ZeroToleranceDisplayRow" where
  "zeroRow bkt config r =
     (let d = borrowerDelta (le r) (cd r);
          status0 = (if d > cfgZeroThreshold config then FAIL else PASS);
          flags0 =
            (if d > cfgZeroThreshold config
             then [buildFlag ZERO_LINE_OVERAGE
                     (ZeroOverageLabel (d - cfgZeroThreshold config)) Error None]
             else []);
          misplaced = (bkt = BucketB \<and> permittedToShop r = Some True);
          flags1 =
            (if misplaced
             then flags0 @ [buildFlag SECTION_PLACEMENT_MISMATCH PlacementLabel Warning None]
             else flags0);
          status1 = (if misplaced \<and> status0 = PASS then REVIEW else status0);
          cure = (if status1 = FAIL then currency (d - cfgZeroThreshold config) else 0)
      in \<lparr>row = r, delta = d, status = status1, flags = flags1, cureAmount = cure\<rparr>)"

definition zeroCuredFlag :: "real \<Rightarrow> FlagDetail" where
  "zeroCuredFlag credits = buildFlag CURED_BY_LENDER (ZeroCuredLabel credits) Warning None"

text \<open>The \<open>forEach\<close> that pushes \<open>CURED_BY_LENDER\<close> onto the rows' flag lists.\<close>

definition zeroCure :: "real \<Rightarrow> real \<Rightarrow> ZeroToleranceDisplayRow list \<Rightarrow> ZeroToleranceDisplayRow list" where
  "zeroCure credits totalCureNeeded evaluated =
     (if credits > 0 \<and> totalCureNeeded > 0
      then map (\<lambda>r. if cureAmount r > 0 \<and> credits \<ge> totalCureNeeded
                     then r\<lparr>flags := flags r @ [zeroCuredFlag credits]\<rparr> else r) evaluated
      else evaluated)"

definition evaluateZeroTolerance ::
  "ZeroToleranceFee list \<Rightarrow> ZeroBucket \<Rightarrow> RuleOptions \<Rightarrow> ZeroToleranceResult" where
  "evaluateZeroTolerance rows bkt options =
     (let config = config_of options;
          credits = cfgLenderCredits config;
          evaluated0 = map (zeroRow bkt config) rows;
          totalCureNeeded = currency (reduce_sum cureAmount evaluated0);
          evaluated = zeroCure credits totalCureNeeded evaluated0
      in \<lparr>rows_zero = evaluated,
          subtotalLE = currency (reduce_sum (\<lambda>r. borrower (le (row r))) evaluated),
          subtotalCD = currency (reduce_sum (\<lambda>r. borrower (cd (row r))) evaluated),
          passCount = length (filter (\<lambda>r. status r = PASS) evaluated),
          failCount = length (filter (\<lambda>r. status r = FAIL) evaluated),
          reviewCount = length (filter (\<lambda>r. status r = REVIEW) evaluated),
          cureAmount_total = currency (reduce_sum cureAmount evaluated)\<rparr>)"

section \<open>Ten-percent aggregate evaluator (frontend/src/types/trid.ts)\<close>

text \<open>
  \<open>TenPercentOverrideMap\<close>: a record from fee id to \<open>{ includeInGroup?: boolean }\<close>.
\<close>

record Override =
  includeInGroup :: "bool option"

type_synonym TenPercentOverrideMap = "string \<rightharpoonup> Override"

text \<open>\<open>Math.round\<close> rounds to the nearest integer, a half towards plus infinity.\<close>

definition math_round :: "real \<Rightarrow> int" where
  "math_round v = \<lfloor>v + 1 / 2\<rfloor>"

text \<open>The body of \<open>rows.map\<close> in \<open>evaluateTenPercent\<close>.\<close>

definition tenRow :: "TenPercentOverrideMap \<Rightarrow> Config \<Rightarrow> TenPercentFee \<Rightarrow> TenPercentDisplayRow" where
  "tenRow overrides config r =
     (let d = borrowerDelta (le r) (cd r);
          isRec = (providerType r = ProviderE \<or> isRecording r = Some True);
          effective =
            (case overrides (fee_id r) of
               Some ov \<Rightarrow> (case includeInGroup ov of Some b \<Rightarrow> b | None \<Rightarrow> onWhitelist r)
             | None \<Rightarrow> onWhitelist r);
          isLowConfidence = (matchConfidence r < cfgReviewConfidenceFloor config);
          needsReview =
            (matchConfidence r \<ge> cfgReviewConfidenceFloor config \<and>
             matchConfidence r < cfgReviewConfidenceCeil config);
          flags0 =
            (if \<not> effective \<and> \<not> isRec \<and> \<not> needsReview \<and> \<not> isLowConfidence
             then [buildFlag PROVIDER_OFF_LIST OffListLabel Warning None] else []);
          flags1 =
            (if needsReview
             then flags0 @ [buildFlag LOW_CONFIDENCE
                              (LowConfidenceLabel (math_round (matchConfidence r * 100)))
                              Warning None]
             else flags0);
          inGroup = ((effective \<or> isRec) \<and> \<not> isLowConfidence);
          st = (if isLowConfidence \<or> needsReview then REVIEW
                else if \<not> effective \<and> \<not> isRec then REVIEW else PASS)
      in \<lparr>row = r, delta = d, status = st, flags = flags1,
          effectiveOnWhitelist = effective, inTenGroup = inGroup\<rparr>)"

definition tenCuredFlag :: "real \<Rightarrow> FlagDetail" where
  "tenCuredFlag credits = buildFlag CURED_BY_LENDER (TenCuredLabel credits) Warning None"

definition tenCure :: "real \<Rightarrow> real \<Rightarrow> TenPercentDisplayRow list \<Rightarrow> TenPercentDisplayRow list" where
  "tenCure credits over evaluated =
     (if over > 0 \<and> credits \<ge> over
      then map (\<lambda>r. if inTenGroup r \<and> delta r > 0
                     then r\<lparr>flags := flags r @ [tenCuredFlag credits]\<rparr> else r) evaluated
      else evaluated)"

definition evaluateTenPercent ::
  "TenPercentFee list \<Rightarrow> TenPercentOverrideMap \<Rightarrow> RuleOptions \<Rightarrow> TenPercentResult" where
  "evaluateTenPercent rows overrides options =
     (let config = config_of options;
          evaluated0 = map (tenRow overrides config) rows;
          eligibleRows = filter inTenGroup evaluated0;
          leB = currency (reduce_sum (\<lambda>r. borrower (le (row r))) eligibleRows);
          cdT = currency (reduce_sum (\<lambda>r. borrower (cd (row r))) eligibleRows);
          allowed = currency (leB * (11 / 10));
          over = currency (max 0 (cdT - allowed));
          st = (if over > 0 then OVER else GROUP_PASS);
          credits = cfgLenderCredits config;
          evaluated = tenCure credits over evaluated0
      in \<lparr>rows_ten = evaluated, leBase = leB, cdTotal = cdT, allowedMax = allowed,
          overage = over, status_ten = st\<rparr>)"

section \<open>Unlimited evaluator (frontend/src/types/trid.ts)\<close>

text \<open>
  \<open>row.perDiemDays && \<dots>\<close> tests truthiness: the number is present and not zero.
\<close>

definition truthy :: "real option \<Rightarrow> bool" where
  "truthy v = (case v of Some x \<Rightarrow> x \<noteq> 0 | None \<Rightarrow> False)"

definition num :: "real option \<Rightarrow> real" where
  "num v = (case v of Some x \<Rightarrow> x | None \<Rightarrow> 0)"

text \<open>
  \<open>deviationPercent > 10\<close> where \<open>deviationPercent = (deviation / expectedPerDiem) * 100\<close>
  and \<open>deviation = Math.abs(actual - expectedPerDiem)\<close>.  The quotient of a JavaScript
  division by zero is written out: \<open>expectedPerDiem\<close> is \<open>Number(raw.toFixed(2))\<close>, which
  is \<open>+0\<close> for a \<open>raw\<close> that rounds to zero from above and \<open>-0\<close> for one that rounds to
  zero from below (\<open>toFixed\<close> prints \<open>-0.00\<close>); a positive deviation divided by \<open>+0\<close> is
  \<open>Infinity\<close>, which exceeds 10, divided by \<open>-0\<close> it is \<open>-Infinity\<close>, which does not, and
  \<open>0 / 0\<close> is \<open>NaN\<close>, which compares false.
\<close>

definition deviationOverTen :: "real \<Rightarrow> real \<Rightarrow> bool" where
  "deviationOverTen raw actual =
     (let expectedPerDiem = currency raw;
          deviation = \<bar>actual - expectedPerDiem\<bar>
      in if expectedPerDiem = 0 then raw \<ge> 0 \<and> deviation > 0
         else deviation / expectedPerDiem * 100 > 10)"

definition perDiemRaw :: "UnlimitedFee \<Rightarrow> real" where
  "perDiemRaw r = num (loanAmount r) * num (interestRate r) / 100 / 365 * num (perDiemDays r)"

text \<open>The body of \<open>rows.map\<close> in \<open>evaluateUnlimited\<close>.\<close>

definition unlimitedRow :: "UnlimitedFee \<Rightarrow> UnlimitedDisplayRow" where
  "unlimitedRow r =
     (let d = borrowerDelta (le r) (cd r);
          flags0 =
            (if bucket r = BucketF \<and> truthy (perDiemDays r) \<and> num (perDiemDays r) > 15
             then [buildFlag PER_DIEM_OUTLIER (PerDiemOutlierLabel (num (perDiemDays r)))
                     Warning None]
             else []);
          flags1 =
            (if bucket r = BucketF \<and> truthy (perDiemDays r) \<and> truthy (loanAmount r) \<and>
                truthy (interestRate r) \<and> borrower (cd r) > 0 \<and>
                deviationOverTen (perDiemRaw r) (borrower (cd r))
             then flags0 @ [buildFlag PER_DIEM_INTEREST_DEVIATION
                              (PerDiemDeviationLabel (currency (perDiemRaw r)) (borrower (cd r)))
                              Warning None]
             else flags0);
          flags2 =
            (if bucket r = BucketG \<and> truthy (escrowMonths r) \<and> num (escrowMonths r) > 2
             then flags1 @ [buildFlag ESCROW_CUSHION_EXCEEDED
                              (EscrowLabel (num (escrowMonths r))) Warning None]
             else flags1);
          flags3 =
            (if bucket r = BucketH \<and> lenderRequired r = Some True \<and> isOptional r \<noteq> Some True
             then flags2 @ [buildFlag OPTIONALITY_MISMATCH OptionalityLabel Warning None]
             else flags2);
          st = (if length flags3 > 0 then REVIEW else PASS)
      in \<lparr>row = r, delta = d, status = st, flags = flags3\<rparr>)"

definition evaluateUnlimited :: "UnlimitedFee list \<Rightarrow> UnlimitedDisplayRow list" where
  "evaluateUnlimited rows = map unlimitedRow rows"

section \<open>Headline total (unnamed/part_003)\<close>

definition totalDifference ::
  "ZeroToleranceResult \<Rightarrow> ZeroToleranceResult \<Rightarrow> TenPercentResult \<Rightarrow> UnlimitedDisplayRow list \<Rightarrow> real" where
  "totalDifference zeroA zeroB tenPercent unlimitedRows =
     (let zeroADiff = subtotalCD zeroA - subtotalLE zeroA;
          zeroBDiff = subtotalCD zeroB - subtotalLE zeroB;
          tenPercentDiff = cdTotal tenPercent - leBase tenPercent;
          unlimitedDiff =
            foldl (\<lambda>sum r. sum + (borrower (cd (row r)) - borrower (le (row r)))) 0 unlimitedRows
      in zeroADiff + zeroBDiff + tenPercentDiff + unlimitedDiff)"

section \<open>Raw-document path: labels (frontend/src/lib/formatters.ts)\<close>

text \<open>
  Strings are modelled over the ASCII characters: \<open>\s\<close> is the six ASCII white-space
  characters, \<open>.\<close> is any character but the line terminators \<open>\n\<close> and \<open>\r\<close>, and
  \<open>toLowerCase\<close> and the \<open>i\<close> flag fold \<open>A\<close> to \<open>Z\<close>.  Characters beyond ASCII are left
  as they are.
\<close>

definition is_digit :: "char \<Rightarrow> bool" where
  "is_digit c = (c \<in> set ''0123456789'')"

definition is_space :: "char \<Rightarrow> bool" where
  "is_space c = (c \<in> set [CHR '' '', CHR 0x09, CHR 0x0A, CHR 0x0B, CHR 0x0C, CHR 0x0D])"

definition is_line_terminator :: "char \<Rightarrow> bool" where
  "is_line_terminator c = (c \<in> set [CHR 0x0A, CHR 0x0D])"

definition to_lower :: "char \<Rightarrow> char" where
  "to_lower c =
     (case map_of (zip ''ABCDEFGHIJKLMNOPQRSTUVWXYZ'' ''abcdefghijklmnopqrstuvwxyz'') c of
        Some l \<Rightarrow> l | None \<Rightarrow> c)"

definition toLowerCase :: "string \<Rightarrow> string" where
  "toLowerCase s = map to_lower s"

definition trim :: "string \<Rightarrow> string" where
  "trim s = rev (dropWhile is_space (rev (dropWhile is_space s)))"

text \<open>\<open>s.includes(t)\<close>.\<close>

fun starts_with :: "string \<Rightarrow> string \<Rightarrow> bool" where
  "starts_with s [] = True"
| "starts_with [] (c # t) = False"
| "starts_with (d # s) (c # t) = (d = c \<and> starts_with s t)"

fun str_includes :: "string \<Rightarrow> string \<Rightarrow> bool" where
  "str_includes [] t = (t = [])"
| "str_includes (d # s) t = (starts_with (d # s) t \<or> str_includes s t)"

text \<open>
  \<open>label.replace(/^[\d]+[\s\.\-]+/, '')\<close>: a leading run of digits followed by a run
  of white space, dots and hyphens is removed.  The two character classes are disjoint,
  so the greedy match is the only one.
\<close>

definition is_index_sep :: "char \<Rightarrow> bool" where
  "is_index_sep c = (is_space c \<or> c = CHR ''.'' \<or> c = CHR ''-'')"

definition strip_index_prefix :: "string \<Rightarrow> string" where
  "strip_index_prefix s =
     (let rest = dropWhile is_digit s
      in if takeWhile is_digit s \<noteq> [] \<and> takeWhile is_index_sep rest \<noteq> []
         then dropWhile is_index_sep rest else s)"

text \<open>
  \<open>/\s+.+$/\<close> at the start of \<open>s\<close>: some white space, then at least one more character,
  none of them a line terminator, up to the end of the string.  When nothing follows the
  white space, the last white-space character is the one matched by \<open>.+\<close>.
\<close>

definition matches_to_tail :: "string \<Rightarrow> bool" where
  "matches_to_tail s =
     (let w = takeWhile is_space s; r = dropWhile is_space s
      in if r \<noteq> [] then w \<noteq> [] \<and> \<not> list_ex is_line_terminator r
         else length w \<ge> 2 \<and> \<not> is_line_terminator (last w))"

text \<open>\<open>/\s+to\s+.+$/i\<close> at the start of \<open>s\<close>.\<close>

definition matches_to_clause :: "string \<Rightarrow> bool" where
  "matches_to_clause s =
     (takeWhile is_space s \<noteq> [] \<and>
      (case dropWhile is_space s of
         c1 # c2 # r \<Rightarrow> to_lower c1 = CHR ''t'' \<and> to_lower c2 = CHR ''o'' \<and> matches_to_tail r
       | _ \<Rightarrow> False))"

text \<open>
  \<open>s.replace(/\s+to\s+.+$/i, '')\<close>: the leftmost match runs to the end of the string,
  so what is left is the text before it.
\<close>

fun strip_to_clause :: "string \<Rightarrow> string" where
  "strip_to_clause [] = []"
| "strip_to_clause (c # s) = (if matches_to_clause (c # s) then [] else c # strip_to_clause s)"

text \<open>\<open>s.replace(/\s+/g, ' ')\<close>.\<close>

function collapse_spaces :: "string \<Rightarrow> string" where
  "collapse_spaces [] = []"
| "collapse_spaces (c # s) =
     (if is_space c then CHR '' '' # collapse_spaces (dropWhile is_space s)
      else c # collapse_spaces s)"
  by pat_completeness auto
termination
  by (relation "measure length") (auto simp: le_imp_less_Suc length_dropWhile_le)

definition normalizeFee :: "string option \<Rightarrow> string" where
  "normalizeFee l =
     (case l of
        None \<Rightarrow> []
      | Some s \<Rightarrow>
          if s = [] then []
          else collapse_spaces (toLowerCase (trim (strip_to_clause (strip_index_prefix s)))))"

section \<open>Raw-document path: line items and payer split\<close>

datatype Payer = PayerBorrower | PayerSeller | PayerOther

datatype SubLabel =
    borrower_paid_at_closing
  | borrower_paid_before_closing
  | seller_paid_at_closing
  | seller_paid_before_closing
  | paid_by_others

datatype Timing = at_closing | before_closing | not_applicable

text \<open>The string that a \<open>SubLabel\<close> is.\<close>

fun sub_label_text :: "SubLabel \<Rightarrow> string" where
  "sub_label_text borrower_paid_at_closing = ''borrower_paid_at_closing''"
| "sub_label_text borrower_paid_before_closing = ''borrower_paid_before_closing''"
| "sub_label_text seller_paid_at_closing = ''seller_paid_at_closing''"
| "sub_label_text seller_paid_before_closing = ''seller_paid_before_closing''"
| "sub_label_text paid_by_others = ''paid_by_others''"

text \<open>
  \<open>LineItem\<close>: every field may be absent or null (\<open>None\<close>).  The field \<open>label\<close> of the
  source is \<open>item_label\<close> here.
\<close>

record LineItem =
  item_label :: "string option"
  amount :: "real option"
  sub_label :: "SubLabel option"
  payer :: "Payer option"
  timing :: "Timing option"

text \<open>\<open>item.sub_label?.includes(t)\<close>, as a condition.\<close>

definition sub_label_includes :: "LineItem \<Rightarrow> string \<Rightarrow> bool" where
  "sub_label_includes item t =
     (case sub_label item of Some sl \<Rightarrow> str_includes (sub_label_text sl) t | None \<Rightarrow> False)"

definition getBorrowerAmount :: "LineItem option \<Rightarrow> real" where
  "getBorrowerAmount item =
     (case item of
        None \<Rightarrow> 0
      | Some it \<Rightarrow>
          (case amount it of
             None \<Rightarrow> 0
           | Some a \<Rightarrow>
               if payer it = Some PayerBorrower then a
               else if sub_label_includes it ''borrower'' then a
               else a))"

definition getSellerAmount :: "LineItem option \<Rightarrow> real" where
  "getSellerAmount item =
     (case item of
        None \<Rightarrow> 0
      | Some it \<Rightarrow>
          (case amount it of
             None \<Rightarrow> 0
           | Some a \<Rightarrow>
               if payer it = Some PayerSeller \<or> sub_label_includes it ''seller'' then a else 0))"

definition getOtherAmount :: "LineItem option \<Rightarrow> real" where
  "getOtherAmount item =
     (case item of
        None \<Rightarrow> 0
      | Some it \<Rightarrow>
          (case amount it of
             None \<Rightarrow> 0
           | Some a \<Rightarrow>
               if payer it = Some PayerOther \<or> sub_label_includes it ''others'' then a else 0))"

text \<open>\<open>v || undefined\<close> on a number.\<close>

definition or_undefined :: "real \<Rightarrow> real option" where
  "or_undefined v = (if v = 0 then None else Some v)"

definition payerSplit :: "LineItem option \<Rightarrow> PayerSplit" where
  "payerSplit item =
     \<lparr>borrower = getBorrowerAmount item,
      seller = or_undefined (getSellerAmount item),
      other = or_undefined (getOtherAmount item)\<rparr>"

section \<open>Raw-document path: the documents\<close>

text \<open>
  Of a \<open>LoanEstimateRecord\<close> the transformers read the items of the sections A to H and
  the loan terms; the other fields are left out.  Every level may be absent or null.
\<close>

record SectionWithItems =
  items :: "LineItem list option"

record LoanCosts =
  section_A :: "SectionWithItems option"
  section_B :: "SectionWithItems option"
  section_C :: "SectionWithItems option"

record OtherCosts =
  section_E :: "SectionWithItems option"
  section_F :: "SectionWithItems option"
  section_G :: "SectionWithItems option"
  section_H :: "SectionWithItems option"

record ClosingCostDetails =
  loan_costs :: "LoanCosts option"
  other_costs :: "OtherCosts option"

record LoanTerms =
  loan_amount :: "real option"
  interest_rate_pct :: "real option"

record LoanEstimateRecord =
  closing_cost_details :: "ClosingCostDetails option"
  loan_terms :: "LoanTerms option"

text \<open>\<open>data?.closing_cost_details?.loan_costs\<close> and \<open>\<dots>?.other_costs\<close>.\<close>

definition loanCostsOf :: "LoanEstimateRecord option \<Rightarrow> LoanCosts option" where
  "loanCostsOf data = Option.bind (Option.bind data closing_cost_details) loan_costs"

definition otherCostsOf :: "LoanEstimateRecord option \<Rightarrow> OtherCosts option" where
  "otherCostsOf data = Option.bind (Option.bind data closing_cost_details) other_costs"

text \<open>\<open>section?.items || []\<close>.\<close>

definition itemsOf :: "SectionWithItems option \<Rightarrow> LineItem list" where
  "itemsOf sec = (case Option.bind sec items of Some its \<Rightarrow> its | None \<Rightarrow> [])"

section \<open>Raw-document path: the merge\<close>

text \<open>
  A JavaScript \<open>Map\<close> with string keys, in insertion order: \<open>set\<close> on a key that is
  there replaces the value in place, on a new key it appends.
\<close>

type_synonym 'v ItemMap = "(string \<times> 'v) list"

fun itemMap_set :: "string \<Rightarrow> 'v \<Rightarrow> 'v ItemMap \<Rightarrow> 'v ItemMap" where
  "itemMap_set k v [] = [(k, v)]"
| "itemMap_set k v ((k', v') # m) =
     (if k' = k then (k, v) # m else (k', v') # itemMap_set k v m)"

definition itemMap_get :: "'v ItemMap \<Rightarrow> string \<Rightarrow> 'v option" where
  "itemMap_get m k = map_of m k"

record MergeEntry =
  le_item :: "LineItem option"
  cd_item :: "LineItem option"
  displayLabel :: string

text \<open>\<open>if (item.label)\<close>: the label is there and not empty.\<close>

definition has_label :: "LineItem \<Rightarrow> bool" where
  "has_label item = (case item_label item of Some l \<Rightarrow> l \<noteq> [] | None \<Rightarrow> False)"

definition label_text :: "LineItem \<Rightarrow> string" where
  "label_text item = (case item_label item of Some l \<Rightarrow> l | None \<Rightarrow> [])"

definition item_key :: "LineItem \<Rightarrow> string" where
  "item_key item = normalizeFee (item_label item)"

text \<open>The body of \<open>leItems.forEach\<close> in \<open>transformSectionA\<close> and \<open>transformSectionB\<close>.\<close>

definition insertLE :: "MergeEntry ItemMap \<Rightarrow> LineItem \<Rightarrow> MergeEntry ItemMap" where
  "insertLE m item =
     (if has_label item
      then itemMap_set (item_key item)
             \<lparr>le_item = Some item, cd_item = None, displayLabel = label_text item\<rparr> m
      else m)"

text \<open>The body of \<open>cdItems.forEach\<close>.\<close>

definition insertCD :: "MergeEntry ItemMap \<Rightarrow> LineItem \<Rightarrow> MergeEntry ItemMap" where
  "insertCD m item =
     (if has_label item
      then (case itemMap_get m (item_key item) of
              Some existing \<Rightarrow> itemMap_set (item_key item) (existing\<lparr>cd_item := Some item\<rparr>) m
            | None \<Rightarrow>
                itemMap_set (item_key item)
                  \<lparr>le_item = None, cd_item = Some item, displayLabel = label_text item\<rparr> m)
      else m)"

definition mergeItems :: "LineItem list \<Rightarrow> LineItem list \<Rightarrow> MergeEntry ItemMap" where
  "mergeItems leItems cdItems = foldl insertCD (foldl insertLE [] leItems) cdItems"

text \<open>\<open>value.le?.label || value.cd?.label || normalizedLabel\<close>.\<close>

definition truthy_label :: "LineItem option \<Rightarrow> string option" where
  "truthy_label item =
     (case item of
        Some it \<Rightarrow> (if has_label it then Some (label_text it) else None)
      | None \<Rightarrow> None)"

definition displayLabelOf :: "string \<Rightarrow> LineItem option \<Rightarrow> LineItem option \<Rightarrow> string" where
  "displayLabelOf normalizedLabel l c =
     (case truthy_label l of
        Some t \<Rightarrow> t
      | None \<Rightarrow> (case truthy_label c of Some t \<Rightarrow> t | None \<Rightarrow> normalizedLabel))"

text \<open>The decimal digits of a natural number, for \<open>`a-${index++}`\<close>.\<close>

fun show_nat :: "nat \<Rightarrow> string" where
  "show_nat n =
     (if n < 10 then [''0123456789'' ! n]
      else show_nat (n div 10) @ [''0123456789'' ! (n mod 10)])"

text \<open>
  \<open>itemMap.forEach\<close> with the running \<open>index\<close>, for the sections A and B; the two
  transformers differ in the section read and in the prefix of the id.
\<close>

fun zeroFeesFrom :: "string \<Rightarrow> nat \<Rightarrow> MergeEntry ItemMap \<Rightarrow> ZeroToleranceFee list" where
  "zeroFeesFrom prefix index [] = []"
| "zeroFeesFrom prefix index ((normalizedLabel, v) # m) =
     \<lparr>fee_id = prefix @ show_nat index,
      fee = displayLabelOf normalizedLabel (le_item v) (cd_item v),
      le = payerSplit (le_item v),
      cd = payerSplit (cd_item v),
      changeReason = ReasonText [],
      permittedToShop = Some False\<rparr> # zeroFeesFrom prefix (Suc index) m"

definition transformSectionA ::
  "LoanEstimateRecord option \<Rightarrow> LoanEstimateRecord option \<Rightarrow> ZeroToleranceFee list" where
  "transformSectionA leData cdData =
     zeroFeesFrom ''a-'' 0
       (mergeItems (itemsOf (Option.bind (loanCostsOf leData) section_A))
                   (itemsOf (Option.bind (loanCostsOf cdData) section_A)))"

definition transformSectionB ::
  "LoanEstimateRecord option \<Rightarrow> LoanEstimateRecord option \<Rightarrow> ZeroToleranceFee list" where
  "transformSectionB leData cdData =
     zeroFeesFrom ''b-'' 0
       (mergeItems (itemsOf (Option.bind (loanCostsOf leData) section_B))
                   (itemsOf (Option.bind (loanCostsOf cdData) section_B)))"

section \<open>Raw-document path: the ten-percent sections\<close>

record TenEntry = MergeEntry +
  entry_type :: ProviderType

text \<open>The bodies of the four \<open>forEach\<close> loops of \<open>transformTenPercent\<close>.\<close>

definition insertLE_C :: "TenEntry ItemMap \<Rightarrow> LineItem \<Rightarrow> TenEntry ItemMap" where
  "insertLE_C m item =
     (if has_label item
      then itemMap_set (item_key item)
             \<lparr>le_item = Some item, cd_item = None, displayLabel = label_text item,
              entry_type = ProviderC\<rparr> m
      else m)"

definition insertLE_E :: "TenEntry ItemMap \<Rightarrow> LineItem \<Rightarrow> TenEntry ItemMap" where
  "insertLE_E m item =
     (if has_label item
      then (case itemMap_get m (item_key item) of
              Some existing \<Rightarrow>
                itemMap_set (item_key item)
                  (existing\<lparr>le_item := Some item, entry_type := ProviderE\<rparr>) m
            | None \<Rightarrow>
                itemMap_set (item_key item)
                  \<lparr>le_item = Some item, cd_item = None, displayLabel = label_text item,
                   entry_type = ProviderE\<rparr> m)
      else m)"

definition insertCD_C :: "TenEntry ItemMap \<Rightarrow> LineItem \<Rightarrow> TenEntry ItemMap" where
  "insertCD_C m item =
     (if has_label item
      then (case itemMap_get m (item_key item) of
              Some existing \<Rightarrow> itemMap_set (item_key item) (existing\<lparr>cd_item := Some item\<rparr>) m
            | None \<Rightarrow>
                itemMap_set (item_key item)
                  \<lparr>le_item = None, cd_item = Some item, displayLabel = label_text item,
                   entry_type = ProviderC\<rparr> m)
      else m)"

definition insertCD_E :: "TenEntry ItemMap \<Rightarrow> LineItem \<Rightarrow> TenEntry ItemMap" where
  "insertCD_E m item =
     (if has_label item
      then (case itemMap_get m (item_key item) of
              Some existing \<Rightarrow>
                itemMap_set (item_key item)
                  (existing\<lparr>cd_item := Some item, entry_type := ProviderE\<rparr>) m
            | None \<Rightarrow>
                itemMap_set (item_key item)
                  \<lparr>le_item = None, cd_item = Some item, displayLabel = label_text item,
                   entry_type = ProviderE\<rparr> m)
      else m)"

definition mergeTenPercent ::
  "LineItem list \<Rightarrow> LineItem list \<Rightarrow> LineItem list \<Rightarrow> LineItem list \<Rightarrow> TenEntry ItemMap" where
  "mergeTenPercent cItems eItems cdCItems cdEItems =
     foldl insertCD_E
       (foldl insertCD_C (foldl insertLE_E (foldl insertLE_C [] cItems) eItems) cdCItems)
       cdEItems"

text \<open>
  Pieces of regular expressions, matched at the start of a string; the result is what
  is left of the string after the match.  \<open>match_spaces\<close> is \<open>\s+\<close>, \<open>match_ci t\<close> the
  lower-case text \<open>t\<close> under the \<open>i\<close> flag, \<open>match_optional_ci c\<close> the optional
  character \<open>c\<close>.  In the expressions below a run of white space is followed by a
  letter and the optional letter is last, so the greedy match is the only one.
\<close>

definition match_spaces :: "string \<Rightarrow> string option" where
  "match_spaces s = (if takeWhile is_space s \<noteq> [] then Some (dropWhile is_space s) else None)"

definition match_ci :: "string \<Rightarrow> string \<Rightarrow> string option" where
  "match_ci t s =
     (if length t \<le> length s \<and> toLowerCase (take (length t) s) = t
      then Some (drop (length t) s) else None)"

definition match_optional_ci :: "char \<Rightarrow> string \<Rightarrow> string option" where
  "match_optional_ci c s =
     (case s of d # r \<Rightarrow> if to_lower d = c then Some r else Some s | [] \<Rightarrow> Some s)"

text \<open>The length of the match at the start of \<open>s\<close>, 0 when there is none.\<close>

definition match_length :: "(string \<Rightarrow> string option) \<Rightarrow> string \<Rightarrow> nat" where
  "match_length p s = (case p s of Some r \<Rightarrow> length s - length r | None \<Rightarrow> 0)"

text \<open>\<open>/\s+and\s+other\s+taxes?/gi\<close>, \<open>/\s+and\s+taxes?/gi\<close> and \<open>/recording fees?/gi\<close>.\<close>

definition and_other_taxes :: "string \<Rightarrow> string option" where
  "and_other_taxes s =
     Option.bind (Option.bind (Option.bind (Option.bind (Option.bind (Option.bind
       (match_spaces s) (match_ci ''and'')) match_spaces) (match_ci ''other'')) match_spaces)
       (match_ci ''taxe'')) (match_optional_ci CHR ''s'')"

definition and_taxes :: "string \<Rightarrow> string option" where
  "and_taxes s =
     Option.bind (Option.bind (Option.bind (Option.bind
       (match_spaces s) (match_ci ''and'')) match_spaces) (match_ci ''taxe''))
       (match_optional_ci CHR ''s'')"

definition recording_fees :: "string \<Rightarrow> string option" where
  "recording_fees s = Option.bind (match_ci ''recording fee'' s) (match_optional_ci CHR ''s'')"

text \<open>
  \<open>s.replace(re, replacement)\<close> with the \<open>g\<close> flag, for an expression that does not
  match the empty string: matches are replaced from left to right.
\<close>

function replace_all :: "(string \<Rightarrow> string option) \<Rightarrow> string \<Rightarrow> string \<Rightarrow> string" where
  "replace_all p replacement s =
     (if s = [] then []
      else if match_length p s > 0
           then replacement @ replace_all p replacement (drop (match_length p s) s)
           else hd s # replace_all p replacement (tl s))"
  by pat_completeness auto
termination
  by (relation "measure (\<lambda>(p, replacement, s). length s)") auto

definition cleanRecordingLabel :: "string \<Rightarrow> string" where
  "cleanRecordingLabel l =
     trim (replace_all recording_fees ''Recording Fees''
             (replace_all and_taxes [] (replace_all and_other_taxes [] l)))"

text \<open>
  \<open>itemMap.forEach\<close> of \<open>transformTenPercent\<close>: \<open>tenFee\<close> is the fee pushed for one
  entry.  \<open>Math.random()\<close> is called once for every entry that is not a recording fee,
  in the order of the entries; \<open>draws\<close> is the sequence of the values it returns and
  \<open>drawn\<close> the number of calls made so far.
\<close>

definition tenFee :: "(nat \<Rightarrow> real) \<Rightarrow> nat \<Rightarrow> nat \<Rightarrow> string \<Rightarrow> TenEntry \<Rightarrow> TenPercentFee" where
  "tenFee draws drawn index normalizedLabel v =
     (let isRec = (entry_type v = ProviderE);
          displayLabel0 = displayLabelOf normalizedLabel (le_item v) (cd_item v);
          displayLabel1 =
            (if isRec \<and> str_includes (toLowerCase displayLabel0) ''recording''
             then cleanRecordingLabel displayLabel0 else displayLabel0)
      in \<lparr>fee_id = ''ten-'' @ show_nat index,
          fee = displayLabel1,
          le = payerSplit (le_item v),
          cd = payerSplit (cd_item v),
          changeReason = ReasonText [],
          provider = ''Unknown Provider'',
          providerType = entry_type v,
          whitelistConfidence = (if isRec then 1 else 85 / 100),
          onWhitelist = (if isRec then True else draws drawn > 3 / 10),
          matchConfidence = 95 / 100,
          isRecording = Some isRec\<rparr>)"

fun tenFeesFrom :: "(nat \<Rightarrow> real) \<Rightarrow> nat \<Rightarrow> nat \<Rightarrow> TenEntry ItemMap \<Rightarrow> TenPercentFee list" where
  "tenFeesFrom draws drawn index [] = []"
| "tenFeesFrom draws drawn index ((normalizedLabel, v) # m) =
     tenFee draws drawn index normalizedLabel v
       # tenFeesFrom draws (if entry_type v = ProviderE then drawn else Suc drawn) (Suc index) m"

definition transformTenPercent ::
  "(nat \<Rightarrow> real) \<Rightarrow> LoanEstimateRecord option \<Rightarrow> LoanEstimateRecord option \<Rightarrow> TenPercentFee list" where
  "transformTenPercent draws leData cdData =
     tenFeesFrom draws 0 0
       (mergeTenPercent
          (itemsOf (Option.bind (loanCostsOf leData) section_C))
          (itemsOf (Option.bind (otherCostsOf leData) section_E))
          (itemsOf (Option.bind (loanCostsOf cdData) section_C))
          (itemsOf (Option.bind (otherCostsOf cdData) section_E)))"

section \<open>Raw-document path: the unlimited sections\<close>

text \<open>
  \<open>feeName.match(/(\d+)\s*(?:day|per.?diem)/i)\<close> and \<open>feeName.match(/(\d+)\s*month/i)\<close>:
  the digits of the leftmost match, if there is one.  \<open>per_diem_word\<close> and \<open>month_word\<close>
  are the words at the start of a string.  The digits matched at a position are the whole
  run of digits from there, and the white space before the word is skipped whole, since
  the word begins with a letter.
\<close>

definition per_diem_word :: "string \<Rightarrow> bool" where
  "per_diem_word s =
     (match_ci ''day'' s \<noteq> None \<or>
      (case match_ci ''per'' s of
         None \<Rightarrow> False
       | Some r \<Rightarrow>
           (case r of
              c # r' \<Rightarrow> (\<not> is_line_terminator c \<and> match_ci ''diem'' r' \<noteq> None) \<or>
                        match_ci ''diem'' r \<noteq> None
            | [] \<Rightarrow> False)))"

definition month_word :: "string \<Rightarrow> bool" where
  "month_word s = (match_ci ''month'' s \<noteq> None)"

fun digits_before :: "(string \<Rightarrow> bool) \<Rightarrow> string \<Rightarrow> string option" where
  "digits_before word [] = None"
| "digits_before word (c # s) =
     (if is_digit c \<and> word (dropWhile is_space (dropWhile is_digit s))
      then Some (c # takeWhile is_digit s)
      else digits_before word s)"

text \<open>\<open>parseInt(digits, 10)\<close> on a string of digits.\<close>

definition digit_value :: "char \<Rightarrow> nat" where
  "digit_value c = (case map_of (zip ''0123456789'' [0 ..< 10]) c of Some n \<Rightarrow> n | None \<Rightarrow> 0)"

definition parseInt :: "string \<Rightarrow> nat" where
  "parseInt ds = foldl (\<lambda>n c. 10 * n + digit_value c) 0 ds"

definition extractPerDiem :: "string \<Rightarrow> real option" where
  "extractPerDiem feeName = map_option (\<lambda>ds. real (parseInt ds)) (digits_before per_diem_word feeName)"

definition extractEscrowMonths :: "string \<Rightarrow> real option" where
  "extractEscrowMonths feeName =
     map_option (\<lambda>ds. real (parseInt ds)) (digits_before month_word feeName)"

text \<open>
  The entries of \<open>transformUnlimited\<close>.  The source stores \<open>{ ...item, bucket }\<close> as the
  LE and CD side; the bucket added to the item is not read again and is left out.
\<close>

record UnlimitedEntry = MergeEntry +
  entry_bucket :: UnlimitedBucket

text \<open>
  The bodies of the six \<open>forEach\<close> loops: the LE items of section F, the LE items of
  the sections G and H, and the CD items of the three sections.
\<close>

definition insertLE_F :: "UnlimitedEntry ItemMap \<Rightarrow> LineItem \<Rightarrow> UnlimitedEntry ItemMap" where
  "insertLE_F m item =
     (if has_label item
      then itemMap_set (item_key item)
             \<lparr>le_item = Some item, cd_item = None, displayLabel = label_text item,
              entry_bucket = BucketF\<rparr> m
      else m)"

definition insertLE_GH ::
  "UnlimitedBucket \<Rightarrow> UnlimitedEntry ItemMap \<Rightarrow> LineItem \<Rightarrow> UnlimitedEntry ItemMap" where
  "insertLE_GH b m item =
     (if has_label item
      then (case itemMap_get m (item_key item) of
              Some existing \<Rightarrow>
                itemMap_set (item_key item)
                  (existing\<lparr>le_item := Some item, entry_bucket := b\<rparr>) m
            | None \<Rightarrow>
                itemMap_set (item_key item)
                  \<lparr>le_item = Some item, cd_item = None, displayLabel = label_text item,
                   entry_bucket = b\<rparr> m)
      else m)"

definition insertCD_FGH ::
  "UnlimitedBucket \<Rightarrow> UnlimitedEntry ItemMap \<Rightarrow> LineItem \<Rightarrow> UnlimitedEntry ItemMap" where
  "insertCD_FGH b m item =
     (if has_label item
      then (case itemMap_get m (item_key item) of
              Some existing \<Rightarrow> itemMap_set (item_key item) (existing\<lparr>cd_item := Some item\<rparr>) m
            | None \<Rightarrow>
                itemMap_set (item_key item)
                  \<lparr>le_item = None, cd_item = Some item, displayLabel = label_text item,
                   entry_bucket = b\<rparr> m)
      else m)"

definition mergeUnlimited ::
  "LineItem list \<Rightarrow> LineItem list \<Rightarrow> LineItem list \<Rightarrow>
   LineItem list \<Rightarrow> LineItem list \<Rightarrow> LineItem list \<Rightarrow> UnlimitedEntry ItemMap" where
  "mergeUnlimited fItems gItems hItems cdFItems cdGItems cdHItems =
     foldl (insertCD_FGH BucketH)
       (foldl (insertCD_FGH BucketG)
          (foldl (insertCD_FGH BucketF)
             (foldl (insertLE_GH BucketH)
                (foldl (insertLE_GH BucketG) (foldl insertLE_F [] fItems) gItems) hItems)
             cdFItems)
          cdGItems)
       cdHItems"

text \<open>\<open>a || b || 0\<close> on two numbers that may be absent.\<close>

definition first_truthy :: "real option \<Rightarrow> real option \<Rightarrow> real" where
  "first_truthy a b = (if truthy a then num a else if truthy b then num b else 0)"

definition loanTermsOf :: "LoanEstimateRecord option \<Rightarrow> LoanTerms option" where
  "loanTermsOf data = Option.bind data loan_terms"

text \<open>\<open>v > 0 ? v : undefined\<close>.\<close>

definition positive_or_undefined :: "real \<Rightarrow> real option" where
  "positive_or_undefined v = (if v > 0 then Some v else None)"

fun unlimitedFeesFrom :: "real \<Rightarrow> real \<Rightarrow> nat \<Rightarrow> UnlimitedEntry ItemMap \<Rightarrow> UnlimitedFee list" where
  "unlimitedFeesFrom loanAmt rate index [] = []"
| "unlimitedFeesFrom loanAmt rate index ((normalizedLabel, v) # m) =
     \<lparr>fee_id = ''unlimited-'' @ show_nat index,
      fee = displayLabelOf normalizedLabel (le_item v) (cd_item v),
      le = payerSplit (le_item v),
      cd = payerSplit (cd_item v),
      changeReason = ReasonText [],
      bucket = entry_bucket v,
      perDiemDays = extractPerDiem (displayLabelOf normalizedLabel (le_item v) (cd_item v)),
      escrowMonths = extractEscrowMonths (displayLabelOf normalizedLabel (le_item v) (cd_item v)),
      isOptional = Some (entry_bucket v = BucketH),
      lenderRequired = None,
      loanAmount = positive_or_undefined loanAmt,
      interestRate = positive_or_undefined rate\<rparr>
       # unlimitedFeesFrom loanAmt rate (Suc index) m"

definition transformUnlimited ::
  "LoanEstimateRecord option \<Rightarrow> LoanEstimateRecord option \<Rightarrow> UnlimitedFee list" where
  "transformUnlimited leData cdData =
     unlimitedFeesFrom
       (first_truthy (Option.bind (loanTermsOf cdData) loan_amount)
                     (Option.bind (loanTermsOf leData) loan_amount))
       (first_truthy (Option.bind (loanTermsOf cdData) interest_rate_pct)
                     (Option.bind (loanTermsOf leData) interest_rate_pct))
       0
       (mergeUnlimited
          (itemsOf (Option.bind (otherCostsOf leData) section_F))
          (itemsOf (Option.bind (otherCostsOf leData) section_G))
          (itemsOf (Option.bind (otherCostsOf leData) section_H))
          (itemsOf (Option.bind (otherCostsOf cdData) section_F))
          (itemsOf (Option.bind (otherCostsOf cdData) section_G))
          (itemsOf (Option.bind (otherCostsOf cdData) section_H)))"

section \<open>Raw-document path: the dataset\<close>

text \<open>
  \<open>ToleranceDataset\<close>, the four fee lists.  The two zero-tolerance lists come first, as a
  record of their own, which is what the model of the pre-matched path returns.
\<close>

record ZeroToleranceDataset =
  origination :: "ZeroToleranceFee list"
  cannotShop :: "ZeroToleranceFee list"

record ToleranceDataset = ZeroToleranceDataset +
  tenPercent :: "TenPercentFee list"
  unlimited :: "UnlimitedFee list"

text \<open>\<open>transformTridData\<close>, with the values of \<open>Math.random()\<close> as an argument.\<close>

definition transformTridData ::
  "(nat \<Rightarrow> real) \<Rightarrow> LoanEstimateRecord option \<Rightarrow> LoanEstimateRecord option \<Rightarrow> ToleranceDataset" where
  "transformTridData draws loanEstimate closingDisclosure =
     \<lparr>origination = transformSectionA loanEstimate closingDisclosure,
      cannotShop = transformSectionB loanEstimate closingDisclosure,
      tenPercent = transformTenPercent draws loanEstimate closingDisclosure,
      unlimited = transformUnlimited loanEstimate closingDisclosure\<rparr>"

section \<open>Pre-matched path (frontend/src/types/trid.ts)\<close>

datatype ToleranceCategory = CategoryZero | CategoryTenPercent | CategoryUnlimited

text \<open>\<open>MatchedFee\<close>; the field \<open>section\<close> of the source is \<open>fee_section\<close> here.\<close>

record MatchedFee =
  fee_name :: string
  fee_section :: string
  le_amount :: "real option"
  cd_amount :: "real option"
  le_label :: "string option"
  cd_label :: "string option"
  match_confidence :: real
  tolerance_category :: ToleranceCategory
  provider_name :: "string option"
  is_new :: bool

text \<open>
  Of a \<open>TRIDComparison\<close> the transformer reads \<open>matched_fees\<close>, which it tests for
  being there.
\<close>

record TRIDComparison =
  matched_fees :: "MatchedFee list option"

text \<open>
  \<open>str.toLowerCase().replace(/[^a-z0-9]+/g, "-").replace(/^-|-$/g, "")\<close>.
\<close>

definition is_id_char :: "char \<Rightarrow> bool" where
  "is_id_char c = (c \<in> set ''abcdefghijklmnopqrstuvwxyz0123456789'')"

function dash_runs :: "string \<Rightarrow> string" where
  "dash_runs [] = []"
| "dash_runs (c # s) =
     (if is_id_char c then c # dash_runs s
      else CHR ''-'' # dash_runs (dropWhile (\<lambda>d. \<not> is_id_char d) s))"
  by pat_completeness auto
termination
  by (relation "measure length") (auto simp: le_imp_less_Suc length_dropWhile_le)

definition strip_edge_dashes :: "string \<Rightarrow> string" where
  "strip_edge_dashes s =
     (let s1 = (case s of c # r \<Rightarrow> if c = CHR ''-'' then r else s | [] \<Rightarrow> [])
      in if s1 \<noteq> [] \<and> last s1 = CHR ''-'' then butlast s1 else s1)"

definition sanitizeId :: "string \<Rightarrow> string" where
  "sanitizeId str = strip_edge_dashes (dash_runs (toLowerCase str))"

definition calculateChangeReason :: "real \<Rightarrow> real \<Rightarrow> bool \<Rightarrow> ChangeReason" where
  "calculateChangeReason leAmount cdAmount isNew =
     (if isNew then NewFeeReason
      else let diff = cdAmount - leAmount
           in if diff = 0 then NoChangeReason
              else if diff > 0 then IncreasedBy diff
              else DecreasedBy \<bar>diff\<bar>)"

definition transformToZeroTolerance :: "MatchedFee \<Rightarrow> ZeroToleranceFee" where
  "transformToZeroTolerance f =
     \<lparr>fee_id = ''ai-zero-'' @ fee_section f @ ''-'' @ sanitizeId (fee_name f),
      fee = (if is_new f then fee_name f @ '' [NEW]'' else fee_name f),
      le = \<lparr>borrower = num (le_amount f), seller = None, other = None\<rparr>,
      cd = \<lparr>borrower = num (cd_amount f), seller = None, other = None\<rparr>,
      changeReason = calculateChangeReason (num (le_amount f)) (num (cd_amount f)) (is_new f),
      permittedToShop = Some (fee_section f = ''B'')\<rparr>"

text \<open>
  \<open>transformAIMatchedData\<close>, its two zero-tolerance lists.  The loop pushes the fees of
  the other two categories onto the lists \<open>tenPercent\<close> and \<open>unlimited\<close> of the dataset,
  which are not modelled on this path.
\<close>

definition emptyDataset :: ZeroToleranceDataset where
  "emptyDataset = \<lparr>origination = [], cannotShop = []\<rparr>"

text \<open>The body of the loop over \<open>matched_fees\<close>.\<close>

definition pushMatchedFee :: "ZeroToleranceDataset \<Rightarrow> MatchedFee \<Rightarrow> ZeroToleranceDataset" where
  "pushMatchedFee ds f =
     (if num (le_amount f) = 0 \<and> num (cd_amount f) = 0 then ds
      else if tolerance_category f = CategoryZero
           then (if fee_section f = ''A''
                 then ds\<lparr>origination := origination ds @ [transformToZeroTolerance f]\<rparr>
                 else if fee_section f = ''B''
                      then ds\<lparr>cannotShop := cannotShop ds @ [transformToZeroTolerance f]\<rparr>
                      else ds)
           else ds)"

definition transformAIMatchedData :: "TRIDComparison option \<Rightarrow> ZeroToleranceDataset" where
  "transformAIMatchedData tridComparison =
     (case Option.bind tridComparison matched_fees of
        None \<Rightarrow> emptyDataset
      | Some fees \<Rightarrow> foldl pushMatchedFee emptyDataset fees)"

section \<open>Notions for the statements\<close>

text \<open>
  Rounding to two decimal places, halves away from zero: the magnitude is rounded to the
  nearest hundredth, a half upwards, and the sign is put back.
\<close>

definition round2 :: "real \<Rightarrow> real" where
  "round2 v = sgn v * (of_int \<lfloor>\<bar>v\<bar> * 100 + 1 / 2\<rfloor> / 100)"

text \<open>The flags the evaluators build, named for use in statements.\<close>

definition zeroOverageFlag :: "real \<Rightarrow> FlagDetail" where
  "zeroOverageFlag x = buildFlag ZERO_LINE_OVERAGE (ZeroOverageLabel x) Error None"

definition placementFlag :: FlagDetail where
  "placementFlag = buildFlag SECTION_PLACEMENT_MISMATCH PlacementLabel Warning None"

definition lowConfidenceFlag :: "int \<Rightarrow> FlagDetail" where
  "lowConfidenceFlag pct = buildFlag LOW_CONFIDENCE (LowConfidenceLabel pct) Warning None"





text \<open>
  The expected per-diem interest in the words of the specification:
  \<open>round2 (loanAmount * interestRate / 100 / 365 * perDiemDays)\<close>.
\<close>

definition expectedPerDiem :: "UnlimitedFee \<Rightarrow> real" where
  "expectedPerDiem r =
     round2 (num (loanAmount r) * num (interestRate r) / 100 / 365 * num (perDiemDays r))"

text \<open>The last item of a list that has a label and the key \<open>k\<close>.\<close>

definition last_with_key :: "string \<Rightarrow> LineItem list \<Rightarrow> LineItem option" where
  "last_with_key k xs = find (\<lambda>x. has_label x \<and> item_key x = k) (rev xs)"

text \<open>The keys of the labelled items of a list.\<close>

definition keys_of :: "LineItem list \<Rightarrow> string set" where
  "keys_of xs = item_key ` {x \<in> set xs. has_label x}"

text \<open>The LE side and the CD side of the entry of a key, if any.\<close>

definition entry_le :: "MergeEntry ItemMap \<Rightarrow> string \<Rightarrow> LineItem option" where
  "entry_le m k = Option.bind (map_of m k) le_item"

definition entry_cd :: "MergeEntry ItemMap \<Rightarrow> string \<Rightarrow> LineItem option" where
  "entry_cd m k = Option.bind (map_of m k) cd_item"

text \<open>
  The matched fees of a section that the loop of \<open>transformAIMatchedData\<close> keeps as
  zero-tolerance fees: not both amounts zero or absent, and of category \<open>zero\<close>.
\<close>

definition keptZero :: "string \<Rightarrow> MatchedFee \<Rightarrow> bool" where
  "keptZero sec f \<longleftrightarrow> \<not> (num (le_amount f) = 0 \<and> num (cd_amount f) = 0) \<and>
     tolerance_category f = CategoryZero \<and> fee_section f = sec"

section \<open>Example inputs\<close>

text \<open>Builders: a split with a borrower amount only, a labelled line item with an amount,
  and a matched fee.\<close>

definition split_of :: "real \<Rightarrow> PayerSplit" where
  "split_of b = \<lparr>borrower = b, seller = None, other = None\<rparr>"

definition line_item :: "string \<Rightarrow> real \<Rightarrow> LineItem" where
  "line_item l a =
     \<lparr>item_label = Some l, amount = Some a, sub_label = None, payer = None, timing = None\<rparr>"

definition matched_fee :: "string \<Rightarrow> string \<Rightarrow> ToleranceCategory \<Rightarrow> real option \<Rightarrow> real option \<Rightarrow> MatchedFee" where
  "matched_fee name sec cat l c =
     \<lparr>fee_name = name, fee_section = sec, le_amount = l, cd_amount = c, le_label = None,
      cd_label = None, match_confidence = 95 / 100, tolerance_category = cat,
      provider_name = None, is_new = False\<rparr>"




text \<open>
  Ten-percent rows: three rows of the group with borrower amounts of 1000 in the estimate
  and 1150 in the disclosure, and a row of low confidence off the whitelist.
\<close>

definition w3_rows :: "TenPercentFee list" where
  "w3_rows =
     [\<lparr>fee_id = ''grp-1'', fee = ''Title - Settlement Agent'', le = split_of 500,
        cd = split_of 600, changeReason = ReasonText [], provider = ''Metro Title Co.'',
        providerType = ProviderC, whitelistConfidence = 96 / 100, onWhitelist = True,
        matchConfidence = 96 / 100, isRecording = None\<rparr>,
      \<lparr>fee_id = ''grp-2'', fee = ''Title Search'', le = split_of 300,
        cd = split_of 300, changeReason = ReasonText [], provider = ''Metro Title Co.'',
        providerType = ProviderC, whitelistConfidence = 91 / 100, onWhitelist = True,
        matchConfidence = 91 / 100, isRecording = None\<rparr>,
      \<lparr>fee_id = ''grp-3'', fee = ''Recording Fees (E)'', le = split_of 200,
        cd = split_of 250, changeReason = ReasonText [], provider = ''County Recorder'',
        providerType = ProviderE, whitelistConfidence = 99 / 100, onWhitelist = True,
        matchConfidence = 99 / 100, isRecording = Some True\<rparr>,
      \<lparr>fee_id = ''grp-4'', fee = ''Pest Inspection'', le = split_of 125,
        cd = split_of 400, changeReason = ReasonText [], provider = ''Ace Inspectors'',
        providerType = ProviderC, whitelistConfidence = 1 / 2, onWhitelist = False,
        matchConfidence = 1 / 2, isRecording = Some False\<rparr>]"

text \<open>Zero-tolerance rows with two overages of 1.00 each, and options with lender credits.\<close>

definition w5_rows :: "ZeroToleranceFee list" where
  "w5_rows =
     [\<lparr>fee_id = ''orig-1'', fee = ''Origination Charge'', le = split_of 1000,
        cd = split_of 1002, changeReason = ReasonText [], permittedToShop = None\<rparr>,
      \<lparr>fee_id = ''orig-2'', fee = ''Processing Fee'', le = split_of 675,
        cd = split_of 675, changeReason = ReasonText [], permittedToShop = None\<rparr>,
      \<lparr>fee_id = ''orig-3'', fee = ''Underwriting Fee'', le = split_of 795,
        cd = split_of 796, changeReason = ReasonText [], permittedToShop = None\<rparr>,
      \<lparr>fee_id = ''orig-4'', fee = ''Application Fee'', le = split_of 500,
        cd = split_of 502, changeReason = ReasonText [], permittedToShop = None\<rparr>]"

definition w5_options :: "real \<Rightarrow> RuleOptions" where
  "w5_options credits = noOptions\<lparr>lenderCredits := Some credits\<rparr>"




text \<open>An unlimited fee with an amount of an eighth of a dollar.\<close>

definition c9_fee :: UnlimitedFee where
  "c9_fee =
     \<lparr>fee_id = ''unlimited-0'', fee = ''Owner title policy'', le = split_of 0,
      cd = split_of (1 / 8), changeReason = ReasonText [], bucket = BucketH,
      perDiemDays = None, escrowMonths = None, isOptional = Some True, lenderRequired = None,
      loanAmount = None, interestRate = None\<rparr>"

text \<open>A line item paid by the seller.\<close>

definition c4_item :: LineItem where
  "c4_item =
     \<lparr>item_label = Some ''Transfer Taxes'', amount = Some 500, sub_label = Some seller_paid_at_closing,
      payer = Some PayerSeller, timing = Some at_closing\<rparr>"

text \<open>Line items of one section, in the estimate and in the disclosure.\<close>

definition c7_le :: "LineItem list" where
  "c7_le = [line_item [] 5, line_item ''Appraisal Fee to A'' 100,
            line_item ''Appraisal Fee to B'' 200]"

definition c7_cd :: "LineItem list" where
  "c7_cd = [line_item [] 7]"

definition w7_le :: "LineItem list" where
  "w7_le = [line_item ''01 Appraisal Fee to ABC Appraisers'' 500, line_item ''Credit Report'' 30]"

definition w7_cd :: "LineItem list" where
  "w7_cd = [line_item ''Appraisal  FEE'' 550, line_item ''Flood Certification'' 20]"

text \<open>Matched fees of the pre-matched path.\<close>

definition w10_fees :: "MatchedFee list" where
  "w10_fees =
     [matched_fee ''Appraisal Fee'' ''B'' CategoryZero (Some 500) (Some 500),
      matched_fee ''Origination Charge'' ''A'' CategoryZero (Some 1000) (Some 1000),
      matched_fee ''Credit Report'' ''B'' CategoryZero (Some 30) (Some 45),
      matched_fee ''Tax Service'' ''B'' CategoryZero None (Some 0),
      matched_fee ''Title Search'' ''C'' CategoryTenPercent (Some 450) (Some 525)]"

text \<open>
  Two documents with a title search in section C, the entry they merge into, and three
  sequences of values of \<open>Math.random()\<close>.
\<close>

definition c6_le :: LoanEstimateRecord where
  "c6_le =
     \<lparr>closing_cost_details =
        Some \<lparr>loan_costs =
                Some \<lparr>section_A = None, section_B = None,
                      section_C = Some \<lparr>items = Some [line_item ''Title Search'' 100]\<rparr>\<rparr>,
              other_costs = None\<rparr>,
      loan_terms = None\<rparr>"

definition c6_cd :: LoanEstimateRecord where
  "c6_cd =
     \<lparr>closing_cost_details =
        Some \<lparr>loan_costs =
                Some \<lparr>section_A = None, section_B = None,
                      section_C = Some \<lparr>items = Some [line_item ''Title Search'' 200]\<rparr>\<rparr>,
              other_costs = None\<rparr>,
      loan_terms = None\<rparr>"

definition c6_entry :: TenEntry where
  "c6_entry =
     \<lparr>le_item = Some (line_item ''Title Search'' 100),
      cd_item = Some (line_item ''Title Search'' 200),
      displayLabel = ''Title Search'', entry_type = ProviderC\<rparr>"

definition draws_high :: "nat \<Rightarrow> real" where
  "draws_high i = 1 / 2"

definition draws_low :: "nat \<Rightarrow> real" where
  "draws_low i = 1 / 10"

definition draws_mixed :: "nat \<Rightarrow> real" where
  "draws_mixed i = (if i = 0 then 1 / 2 else 1 / 10)"

section \<open>Rounding facts\<close>

lemma reduce_sum_sum_list: "reduce_sum f xs = sum_list (map f xs)"
proof -
  have "foldl (\<lambda>s r. s + f r) a xs = a + sum_list (map f xs)" for a
    by (induction xs arbitrary: a) (simp_all add: algebra_simps)
  from this [of 0] show ?thesis by (simp add: reduce_sum_def)
qed


lemma is_cents_currency: "is_cents (currency v)"
  unfolding currency_def is_cents_def by simp

lemma floor_half: "\<lfloor>of_int n + (1 / 2 :: real)\<rfloor> = n"
  by linarith

lemma currency_of_cents: 
  assumes "is_cents v" shows "currency v = v"
proof -
  from assms obtain n :: int where n: "v * 100 = of_int n" unfolding is_cents_def by metis
  have v: "v = of_int n / 100" using n by simp
  have 1: "\<lfloor>v * 100 + 1/2\<rfloor> = n" unfolding n by (rule floor_half)
  have "(-v) * 100 = of_int (-n)" using n by simp
  then have 2: "\<lfloor>(-v) * 100 + 1/2\<rfloor> = - n" using floor_half[of "-n"] by simp
  show ?thesis unfolding currency_def 1 2 by (simp add: v)
qed

lemma currency_near: "\<bar>currency v - v\<bar> \<le> 1 / 200"
proof -
  have k: "\<bar>of_int \<lfloor>x * 100 + 1 / 2\<rfloor> / 100 - x\<bar> \<le> 1 / 200" for x :: real
  proof -
    define n where "n = \<lfloor>x * 100 + 1 / 2\<rfloor>"
    have "of_int n \<le> x * 100 + 1 / 2" unfolding n_def by (rule of_int_floor_le)
    moreover have "x * 100 + 1 / 2 < of_int n + 1" unfolding n_def by linarith
    ultimately have "\<bar>of_int n / 100 - x\<bar> \<le> 1 / 200" by linarith
    then show ?thesis unfolding n_def .
  qed
  show ?thesis
  proof (cases "v < 0")
    case True
    have "\<bar>- (of_int \<lfloor>(- v) * 100 + 1 / 2\<rfloor> / 100) - v\<bar> = \<bar>of_int \<lfloor>(- v) * 100 + 1 / 2\<rfloor> / 100 - (- v)\<bar>"
      by linarith
    with True show ?thesis using k[of "-v"] by (simp only: currency_def if_True)
  next
    case False
    then show ?thesis using k[of v] by (simp add: currency_def)
  qed
qed

lemma currency_mono: 
  assumes ab: "a \<le> b" shows "currency a \<le> currency b"
proof -
  have m: "x \<le> y \<Longrightarrow> (of_int \<lfloor>x * 100 + 1/2\<rfloor> :: real) \<le> of_int \<lfloor>y * 100 + 1/2\<rfloor>" for x y :: real
    by (simp add: floor_mono)
  have p: "0 \<le> x \<Longrightarrow> (0::real) \<le> of_int \<lfloor>x * 100 + 1/2\<rfloor>" for x :: real
    by simp
  show ?thesis
  proof (cases "a < 0")
    case an: True
    show ?thesis
    proof (cases "b < 0")
      case True
      with an ab m[of "-b" "-a"] show ?thesis by (simp add: currency_def divide_right_mono)
    next
      case False
      then have "0 \<le> currency b" using p[of b] by (simp add: currency_def)
      moreover have "currency a \<le> 0" using an p[of "-a"] by (simp add: currency_def)
      ultimately show ?thesis by linarith
    qed
  next
    case False
    with ab have "\<not> b < 0" by simp
    with False ab m[of a b] show ?thesis by (simp add: currency_def divide_right_mono)
  qed
qed

lemma currency_0: "currency 0 = 0" by (simp add: currency_def)


lemma currency_nonneg: "0 \<le> v \<Longrightarrow> 0 \<le> currency v"
  using currency_mono[of 0 v] by (simp add: currency_0)

lemma currency_pos_ge_cent: 
  assumes "currency v > 0" shows "currency v \<ge> 1 / 100"
proof -
  have "\<exists>n :: int. currency v = of_int n / 100"
  proof (cases "v < 0")
    case True
    then have "currency v = of_int (- \<lfloor>(- v) * 100 + 1 / 2\<rfloor>) / 100" by (simp add: currency_def)
    then show ?thesis by blast
  next
    case False
    then have "currency v = of_int \<lfloor>v * 100 + 1 / 2\<rfloor> / 100" by (simp add: currency_def)
    then show ?thesis by blast
  qed
  then obtain n :: int where n: "currency v = of_int n / 100" by blast
  with assms have "0 < n" by simp
  then have "1 \<le> n" by simp
  then have "(1::real) \<le> of_int n" by linarith
  then show ?thesis unfolding n by simp
qed

section \<open>Zero-tolerance evaluator: facts\<close>

lemma zeroCure_cases:
  assumes "r' \<in> set (zeroCure credits tot evaluated)"
  shows "\<exists>r \<in> set evaluated. r' = r \<or> r' = r\<lparr>flags := flags r @ [zeroCuredFlag credits]\<rparr>"
  using assms by (auto simp: zeroCure_def split: if_splits)

lemma zeroCure_map_row: "map row (zeroCure credits tot evaluated) = map row evaluated"
  by (simp add: zeroCure_def)

lemma zeroCure_map_status: "map status (zeroCure credits tot evaluated) = map status evaluated"
  by (simp add: zeroCure_def)

lemma zeroCure_map_delta: "map delta (zeroCure credits tot evaluated) = map delta evaluated"
  by (simp add: zeroCure_def)

lemma zeroCure_map_cureAmount: "map cureAmount (zeroCure credits tot evaluated) = map cureAmount evaluated"
  by (simp add: zeroCure_def)

lemma rows_zero_eq:
  "rows_zero (evaluateZeroTolerance rows bkt options) =
     zeroCure (cfgLenderCredits (config_of options))
       (currency (reduce_sum cureAmount (map (zeroRow bkt (config_of options)) rows)))
       (map (zeroRow bkt (config_of options)) rows)"
  by (simp add: evaluateZeroTolerance_def Let_def)

lemma zeroRow_row: "row (zeroRow bkt config x) = x"
  by (simp add: zeroRow_def Let_def)


lemma zeroRow_status:
  "status (zeroRow bkt config x) =
     (if delta (zeroRow bkt config x) > cfgZeroThreshold config then FAIL
      else if bkt = BucketB \<and> permittedToShop x = Some True then REVIEW else PASS)"
  by (simp add: zeroRow_def Let_def)

lemma zeroRow_flags:
  "flags (zeroRow bkt config x) =
     (if delta (zeroRow bkt config x) > cfgZeroThreshold config
      then [zeroOverageFlag (delta (zeroRow bkt config x) - cfgZeroThreshold config)] else []) @
     (if bkt = BucketB \<and> permittedToShop x = Some True then [placementFlag] else [])"
  by (simp add: zeroRow_def Let_def zeroOverageFlag_def placementFlag_def)

lemma zeroRow_cureAmount:
  "cureAmount (zeroRow bkt config x) =
     (if delta (zeroRow bkt config x) > cfgZeroThreshold config
      then currency (delta (zeroRow bkt config x) - cfgZeroThreshold config) else 0)"
  by (simp add: zeroRow_def Let_def)


lemma config_noOptions: "config_of noOptions = DEFAULTS"
  by (simp add: config_of_def noOptions_def)








section \<open>Ten-percent evaluator: facts\<close>





lemma rows_ten_eq:
  "rows_ten (evaluateTenPercent rows overrides options) =
     tenCure (cfgLenderCredits (config_of options))
       (overage (evaluateTenPercent rows overrides options))
       (map (tenRow overrides (config_of options)) rows)"
  by (simp add: evaluateTenPercent_def Let_def)

lemma leBase_eq:
  "leBase (evaluateTenPercent rows overrides options) =
     currency (reduce_sum (\<lambda>r. borrower (le (row r)))
       (filter inTenGroup (map (tenRow overrides (config_of options)) rows)))"
  by (simp add: evaluateTenPercent_def Let_def)

lemma cdTotal_eq:
  "cdTotal (evaluateTenPercent rows overrides options) =
     currency (reduce_sum (\<lambda>r. borrower (cd (row r)))
       (filter inTenGroup (map (tenRow overrides (config_of options)) rows)))"
  by (simp add: evaluateTenPercent_def Let_def)

lemma allowedMax_eq:
  "allowedMax (evaluateTenPercent rows overrides options) =
     currency (leBase (evaluateTenPercent rows overrides options) * (11 / 10))"
  by (simp add: evaluateTenPercent_def Let_def)

lemma overage_eq:
  "overage (evaluateTenPercent rows overrides options) =
     currency (max 0 (cdTotal (evaluateTenPercent rows overrides options) -
                      allowedMax (evaluateTenPercent rows overrides options)))"
  by (simp add: evaluateTenPercent_def Let_def)

lemma status_ten_eq:
  "status_ten (evaluateTenPercent rows overrides options) =
     (if overage (evaluateTenPercent rows overrides options) > 0 then OVER else GROUP_PASS)"
  by (simp add: evaluateTenPercent_def Let_def)

lemma tenRow_row: "row (tenRow overrides config x) = x"
  by (simp add: tenRow_def Let_def)


lemma tenRow_effectiveOnWhitelist:
  "effectiveOnWhitelist (tenRow overrides config x) =
     (case overrides (fee_id x) of
        Some ov \<Rightarrow> (case includeInGroup ov of Some b \<Rightarrow> b | None \<Rightarrow> onWhitelist x)
      | None \<Rightarrow> onWhitelist x)"
  by (simp add: tenRow_def Let_def)

lemma tenRow_inTenGroup:
  "inTenGroup (tenRow overrides config x) \<longleftrightarrow>
     (effectiveOnWhitelist (tenRow overrides config x) \<or> providerType x = ProviderE \<or>
      isRecording x = Some True) \<and>
     \<not> matchConfidence x < cfgReviewConfidenceFloor config"
  by (simp add: tenRow_def Let_def)

section \<open>Unlimited evaluator: facts\<close>




section \<open>The examples evaluated\<close>

lemma w3_rows0:
  "map (tenRow Map.empty (config_of noOptions)) w3_rows =
     [\<lparr>row = w3_rows ! 0, delta = 100, status = PASS, flags = [],
        effectiveOnWhitelist = True, inTenGroup = True\<rparr>,
      \<lparr>row = w3_rows ! 1, delta = 0, status = REVIEW, flags = [lowConfidenceFlag 91],
        effectiveOnWhitelist = True, inTenGroup = True\<rparr>,
      \<lparr>row = w3_rows ! 2, delta = 50, status = PASS, flags = [],
        effectiveOnWhitelist = True, inTenGroup = True\<rparr>,
      \<lparr>row = w3_rows ! 3, delta = 275, status = REVIEW, flags = [],
        effectiveOnWhitelist = False, inTenGroup = False\<rparr>]"
  unfolding config_noOptions
  by (simp add: tenRow_def w3_rows_def DEFAULTS_def borrowerDelta_def currency_def Let_def
      lowConfidenceFlag_def math_round_def split_of_def)

lemma w3_leBase: "leBase (evaluateTenPercent w3_rows Map.empty noOptions) = 1000"
  unfolding leBase_eq w3_rows0
  by (simp add: reduce_sum_def w3_rows_def split_of_def currency_def)

lemma w3_cdTotal: "cdTotal (evaluateTenPercent w3_rows Map.empty noOptions) = 1150"
  unfolding cdTotal_eq w3_rows0
  by (simp add: reduce_sum_def w3_rows_def split_of_def currency_def)

lemma w3_allowedMax: "allowedMax (evaluateTenPercent w3_rows Map.empty noOptions) = 1100"
  unfolding allowedMax_eq w3_leBase by (simp add: currency_def)

lemma w3_overage: "overage (evaluateTenPercent w3_rows Map.empty noOptions) = 50"
  unfolding overage_eq w3_cdTotal w3_allowedMax by (simp add: currency_def)

lemma w3_status: "status_ten (evaluateTenPercent w3_rows Map.empty noOptions) = OVER"
  unfolding status_ten_eq w3_overage by simp

lemma w3_rows_eval:
  "rows_ten (evaluateTenPercent w3_rows Map.empty noOptions) =
     map (tenRow Map.empty (config_of noOptions)) w3_rows"
  unfolding rows_ten_eq w3_overage by (simp add: tenCure_def config_noOptions DEFAULTS_def)





section \<open>Lender credits\<close>

lemma config_of_no_credits:
  "config_of (options\<lparr>lenderCredits := None\<rparr>) = (config_of options)\<lparr>cfgLenderCredits := 0\<rparr>"
  by (simp add: config_of_def DEFAULTS_def)

lemma zeroRow_ignores_credits: "zeroRow bkt (config\<lparr>cfgLenderCredits := c\<rparr>) = zeroRow bkt config"
  by (rule ext) (simp add: zeroRow_def Let_def)

lemma tenRow_ignores_credits:
  "tenRow overrides (config\<lparr>cfgLenderCredits := c\<rparr>) = tenRow overrides config"
  by (rule ext) (simp add: tenRow_def Let_def)

lemma zeroCure_no_credits: "zeroCure 0 tot evaluated = evaluated"
  by (simp add: zeroCure_def)

lemma tenCure_no_credits: "tenCure 0 over evaluated = evaluated"
proof -
  have "\<not> (over > 0 \<and> 0 \<ge> over)" by simp
  then show ?thesis unfolding tenCure_def by (simp only: if_False)
qed

lemma zeroCure_reduce_sum:
  assumes "\<And>r fs. f (r\<lparr>flags := fs\<rparr>) = f r"
  shows "reduce_sum f (zeroCure credits tot evaluated) = reduce_sum f evaluated"
proof -
  have "map f (zeroCure credits tot evaluated) = map f evaluated"
    by (simp add: zeroCure_def assms)
  then show ?thesis by (simp add: reduce_sum_sum_list)
qed

lemma filter_frame_length:
  assumes "\<And>x. P (g x) = P x"
  shows "length (filter P (map g xs)) = length (filter P xs)"
  using assms by (induction xs) simp_all

lemma zeroCure_count:
  "length (filter (\<lambda>r. status r = s) (zeroCure credits tot evaluated)) =
   length (filter (\<lambda>r. status r = s) evaluated)"
proof (cases "credits > 0 \<and> tot > 0")
  case True
  have "length (filter (\<lambda>r. status r = s)
          (map (\<lambda>r. if cureAmount r > 0 \<and> credits \<ge> tot
                     then r\<lparr>flags := flags r @ [zeroCuredFlag credits]\<rparr> else r) evaluated)) =
        length (filter (\<lambda>r. status r = s) evaluated)"
    by (rule filter_frame_length) simp
  with True show ?thesis by (simp add: zeroCure_def)
next
  case False
  then have "zeroCure credits tot evaluated = evaluated" unfolding zeroCure_def by (simp only: if_False)
  then show ?thesis by simp
qed

lemma subtotalLE_eq:
  "subtotalLE (evaluateZeroTolerance rows bkt options) =
     currency (reduce_sum (\<lambda>r. borrower (le (row r))) (map (zeroRow bkt (config_of options)) rows))"
  by (simp add: evaluateZeroTolerance_def Let_def zeroCure_reduce_sum)

lemma subtotalCD_eq:
  "subtotalCD (evaluateZeroTolerance rows bkt options) =
     currency (reduce_sum (\<lambda>r. borrower (cd (row r))) (map (zeroRow bkt (config_of options)) rows))"
  by (simp add: evaluateZeroTolerance_def Let_def zeroCure_reduce_sum)

lemma cureAmount_total_eq:
  "cureAmount_total (evaluateZeroTolerance rows bkt options) =
     currency (reduce_sum cureAmount (map (zeroRow bkt (config_of options)) rows))"
  by (simp add: evaluateZeroTolerance_def Let_def zeroCure_reduce_sum)

lemma passCount_eq:
  "passCount (evaluateZeroTolerance rows bkt options) =
     length (filter (\<lambda>r. status r = PASS) (map (zeroRow bkt (config_of options)) rows))"
  by (simp add: evaluateZeroTolerance_def Let_def zeroCure_count)

lemma failCount_eq:
  "failCount (evaluateZeroTolerance rows bkt options) =
     length (filter (\<lambda>r. status r = FAIL) (map (zeroRow bkt (config_of options)) rows))"
  by (simp add: evaluateZeroTolerance_def Let_def zeroCure_count)

lemma reviewCount_eq:
  "reviewCount (evaluateZeroTolerance rows bkt options) =
     length (filter (\<lambda>r. status r = REVIEW) (map (zeroRow bkt (config_of options)) rows))"
  by (simp add: evaluateZeroTolerance_def Let_def zeroCure_count)

lemma is_cents_0: "is_cents 0"
  by (simp add: is_cents_def)

lemma zeroRow_cure_nonneg: "0 \<le> cureAmount (zeroRow bkt config x)"
  unfolding zeroRow_cureAmount by (simp add: currency_nonneg)

lemma cure_total_pos:
  assumes "r \<in> set (map (zeroRow bkt config) rows)" and "cureAmount r > 0"
  shows "currency (reduce_sum cureAmount (map (zeroRow bkt config) rows)) > 0"
proof -
  have nn: "\<forall>y \<in> set (map (zeroRow bkt config) rows). 0 \<le> cureAmount y"
    using zeroRow_cure_nonneg by auto
  have "cureAmount r \<le> sum_list (map cureAmount (map (zeroRow bkt config) rows))"
    using assms(1) nn by (intro member_le_sum_list) auto
  then have "currency (cureAmount r) \<le> currency (reduce_sum cureAmount (map (zeroRow bkt config) rows))"
    unfolding reduce_sum_sum_list by (rule currency_mono)
  moreover have "currency (cureAmount r) = cureAmount r"
  proof -
    from assms(1) obtain x where "r = zeroRow bkt config x" by auto
    then have "is_cents (cureAmount r)"
      by (simp add: zeroRow_cureAmount is_cents_currency is_cents_0)
    then show ?thesis by (rule currency_of_cents)
  qed
  ultimately show ?thesis using assms(2) by linarith
qed

lemma zeroCure_as_map:
  assumes ev: "evaluated = map (zeroRow bkt config) rows"
    and tot: "tot = currency (reduce_sum cureAmount evaluated)"
  shows "zeroCure credits tot evaluated =
     map (\<lambda>r. if credits > 0 \<and> credits \<ge> tot \<and> cureAmount r > 0
               then r\<lparr>flags := flags r @ [zeroCuredFlag credits]\<rparr> else r) evaluated"
proof (cases "credits > 0 \<and> tot > 0")
  case True
  then show ?thesis unfolding zeroCure_def by (auto cong: map_cong)
next
  case False
  have "(if credits > 0 \<and> credits \<ge> tot \<and> cureAmount r > 0
               then r\<lparr>flags := flags r @ [zeroCuredFlag credits]\<rparr> else r) = r"
    if "r \<in> set evaluated" for r
  proof (cases "cureAmount r > 0")
    case True
    with that have "tot > 0" unfolding tot ev by (intro cure_total_pos)
    with False show ?thesis by simp
  next
    case False
    then show ?thesis by simp
  qed
  then have "map (\<lambda>r. if credits > 0 \<and> credits \<ge> tot \<and> cureAmount r > 0
               then r\<lparr>flags := flags r @ [zeroCuredFlag credits]\<rparr> else r) evaluated = evaluated"
    by (simp add: map_idI)
  moreover from False have "zeroCure credits tot evaluated = evaluated"
    unfolding zeroCure_def by (simp only: if_False)
  ultimately show ?thesis by simp
qed

lemma tenCure_as_map:
  "tenCure credits over evaluated =
     map (\<lambda>r. if over > 0 \<and> credits \<ge> over \<and> inTenGroup r \<and> delta r > 0
               then r\<lparr>flags := flags r @ [tenCuredFlag credits]\<rparr> else r) evaluated"
proof (cases "over > 0 \<and> credits \<ge> over")
  case True
  then show ?thesis unfolding tenCure_def by (auto cong: map_cong)
next
  case False
  then have "tenCure credits over evaluated = evaluated"
    unfolding tenCure_def by (simp only: if_False)
  moreover from False have "map (\<lambda>r. if over > 0 \<and> credits \<ge> over \<and> inTenGroup r \<and> delta r > 0
               then r\<lparr>flags := flags r @ [tenCuredFlag credits]\<rparr> else r) evaluated = evaluated"
    by (intro map_idI) auto
  ultimately show ?thesis by simp
qed

text \<open>
  Claim C5.  A run with lender credits is compared with the run on the same rows and
  options without them.  Zero tolerance: the rows of the run with credits are the rows
  of the run without, where every row with a positive \<open>cureAmount\<close> has the
  \<open>CURED_BY_LENDER\<close> warning appended to its flags when \<open>lenderCredits > 0\<close> and
  \<open>lenderCredits \<ge> totalCureNeeded\<close>, and is the same row otherwise; the subtotals, the
  counts and the total cure are the same.  Ten percent: the rows are those of the run
  without credits, where every row in the group with a positive delta has the
  \<open>CURED_BY_LENDER\<close> warning appended when \<open>overage > 0\<close> and
  \<open>lenderCredits \<ge> overage\<close>; \<open>leBase\<close>, \<open>cdTotal\<close>, \<open>allowedMax\<close>, \<open>overage\<close> and the
  aggregate status are the same.  So no status, of a row or of the group, depends on the
  credit.
\<close>

theorem C5_lender_credit_is_annotation_only:
  assumes credits: "credits = cfgLenderCredits (config_of options)"
    and z: "z = evaluateZeroTolerance zrows bkt options"
    and z0: "z0 = evaluateZeroTolerance zrows bkt (options\<lparr>lenderCredits := None\<rparr>)"
    and t: "t = evaluateTenPercent trows overrides options"
    and t0: "t0 = evaluateTenPercent trows overrides (options\<lparr>lenderCredits := None\<rparr>)"
  shows
    "rows_zero z =
       map (\<lambda>r. if credits > 0 \<and> credits \<ge> cureAmount_total z0 \<and> cureAmount r > 0
                 then r\<lparr>flags := flags r @ [zeroCuredFlag credits]\<rparr> else r) (rows_zero z0) \<and>
     subtotalLE z = subtotalLE z0 \<and> subtotalCD z = subtotalCD z0 \<and>
     passCount z = passCount z0 \<and> failCount z = failCount z0 \<and>
     reviewCount z = reviewCount z0 \<and> cureAmount_total z = cureAmount_total z0 \<and>
     rows_ten t =
       map (\<lambda>r. if overage t0 > 0 \<and> credits \<ge> overage t0 \<and> inTenGroup r \<and> delta r > 0
                 then r\<lparr>flags := flags r @ [tenCuredFlag credits]\<rparr> else r) (rows_ten t0) \<and>
     leBase t = leBase t0 \<and> cdTotal t = cdTotal t0 \<and> allowedMax t = allowedMax t0 \<and>
     overage t = overage t0 \<and> status_ten t = status_ten t0 \<and>
     code (zeroCuredFlag credits) = CURED_BY_LENDER \<and>
     severity (zeroCuredFlag credits) = Warning \<and>
     code (tenCuredFlag credits) = CURED_BY_LENDER \<and>
     severity (tenCuredFlag credits) = Warning"
proof -
  define cfg where "cfg = config_of options"
  define ev where "ev = map (zeroRow bkt cfg) zrows"
  define tot where "tot = currency (reduce_sum cureAmount ev)"
  define tev where "tev = map (tenRow overrides cfg) trows"
  have cfg0: "config_of (options\<lparr>lenderCredits := None\<rparr>) = cfg\<lparr>cfgLenderCredits := 0\<rparr>"
    unfolding cfg_def by (rule config_of_no_credits)
  have rz0: "rows_zero z0 = ev"
    unfolding z0 rows_zero_eq cfg0 zeroRow_ignores_credits ev_def
    by (simp add: zeroCure_no_credits)
  have tot0: "cureAmount_total z0 = tot"
    unfolding z0 cureAmount_total_eq cfg0 zeroRow_ignores_credits tot_def ev_def ..
  have rz: "rows_zero z = zeroCure credits tot ev"
    unfolding z rows_zero_eq credits tot_def ev_def cfg_def ..
  have 1: "rows_zero z =
       map (\<lambda>r. if credits > 0 \<and> credits \<ge> cureAmount_total z0 \<and> cureAmount r > 0
                 then r\<lparr>flags := flags r @ [zeroCuredFlag credits]\<rparr> else r) (rows_zero z0)"
    unfolding rz rz0 tot0 using ev_def tot_def by (rule zeroCure_as_map)
  have 2: "subtotalLE z = subtotalLE z0" "subtotalCD z = subtotalCD z0"
    "passCount z = passCount z0" "failCount z = failCount z0"
    "reviewCount z = reviewCount z0" "cureAmount_total z = cureAmount_total z0"
    unfolding z z0 subtotalLE_eq subtotalCD_eq passCount_eq failCount_eq reviewCount_eq
      cureAmount_total_eq cfg0 zeroRow_ignores_credits cfg_def by (rule refl)+
  have 3: "leBase t = leBase t0" "cdTotal t = cdTotal t0"
    unfolding t t0 leBase_eq cdTotal_eq cfg0 tenRow_ignores_credits cfg_def by (rule refl)+
  have 4: "allowedMax t = allowedMax t0"
    using 3(1) unfolding t t0 allowedMax_eq by simp
  have 5: "overage t = overage t0"
    using 3(2) 4 unfolding t t0 overage_eq by simp
  have 6: "status_ten t = status_ten t0"
    using 5 unfolding t t0 status_ten_eq by simp
  have rt0: "rows_ten t0 = tev"
    unfolding t0 rows_ten_eq cfg0 tenRow_ignores_credits tev_def
    by (simp add: tenCure_no_credits)
  have rt: "rows_ten t = tenCure credits (overage t0) tev"
    unfolding 5 [symmetric] unfolding t rows_ten_eq credits tev_def cfg_def ..
  have 7: "rows_ten t =
       map (\<lambda>r. if overage t0 > 0 \<and> credits \<ge> overage t0 \<and> inTenGroup r \<and> delta r > 0
                 then r\<lparr>flags := flags r @ [tenCuredFlag credits]\<rparr> else r) (rows_ten t0)"
    unfolding rt rt0 by (rule tenCure_as_map)
  have 8: "code (zeroCuredFlag credits) = CURED_BY_LENDER"
     "severity (zeroCuredFlag credits) = Warning"
     "code (tenCuredFlag credits) = CURED_BY_LENDER"
     "severity (tenCuredFlag credits) = Warning"
    by (simp_all add: zeroCuredFlag_def tenCuredFlag_def buildFlag_def)
  from 1 2 3 4 5 6 7 8 show ?thesis by (intro conjI)
qed

lemma w5_config: "config_of (w5_options c) = DEFAULTS\<lparr>cfgLenderCredits := c\<rparr>"
  by (simp add: w5_options_def noOptions_def config_of_def DEFAULTS_def)

lemma w5_rows0:
  "map (zeroRow BucketA DEFAULTS) w5_rows =
     [\<lparr>row = w5_rows ! 0, delta = 2, status = FAIL, flags = [zeroOverageFlag 1], cureAmount = 1\<rparr>,
      \<lparr>row = w5_rows ! 1, delta = 0, status = PASS, flags = [], cureAmount = 0\<rparr>,
      \<lparr>row = w5_rows ! 2, delta = 1, status = PASS, flags = [], cureAmount = 0\<rparr>,
      \<lparr>row = w5_rows ! 3, delta = 2, status = FAIL, flags = [zeroOverageFlag 1], cureAmount = 1\<rparr>]"
  by (simp add: zeroRow_def w5_rows_def DEFAULTS_def borrowerDelta_def currency_def Let_def
      zeroOverageFlag_def split_of_def)

lemma w5_rows_eval:
  "rows_zero (evaluateZeroTolerance w5_rows BucketA (w5_options 2)) =
     [\<lparr>row = w5_rows ! 0, delta = 2, status = FAIL,
        flags = [zeroOverageFlag 1, zeroCuredFlag 2], cureAmount = 1\<rparr>,
      \<lparr>row = w5_rows ! 1, delta = 0, status = PASS, flags = [], cureAmount = 0\<rparr>,
      \<lparr>row = w5_rows ! 2, delta = 1, status = PASS, flags = [], cureAmount = 0\<rparr>,
      \<lparr>row = w5_rows ! 3, delta = 2, status = FAIL,
        flags = [zeroOverageFlag 1, zeroCuredFlag 2], cureAmount = 1\<rparr>]"
  unfolding rows_zero_eq w5_config zeroRow_ignores_credits w5_rows0
  by (simp add: zeroCure_def reduce_sum_def currency_def)

lemma w5_options_reset: "(w5_options c)\<lparr>lenderCredits := None\<rparr> = noOptions"
  by (simp add: w5_options_def noOptions_def)

text \<open>
  Claim C5 at the example of section 8 of the specification (a cure need of 2.00 and
  lender credits of 2.00: both overage rows are flagged and stay \<open>FAIL\<close>) and at the
  ten-percent example with credits of 50 against an overage of 50.
\<close>

theorem C5_witness:
  "map flags (rows_zero (evaluateZeroTolerance w5_rows BucketA (w5_options 2))) =
     [[zeroOverageFlag 1, zeroCuredFlag 2], [], [], [zeroOverageFlag 1, zeroCuredFlag 2]] \<and>
   map status (rows_zero (evaluateZeroTolerance w5_rows BucketA (w5_options 2))) =
     [FAIL, PASS, PASS, FAIL] \<and>
   cureAmount_total (evaluateZeroTolerance w5_rows BucketA (w5_options 2)) = 2 \<and>
   map flags (rows_ten (evaluateTenPercent w3_rows Map.empty (w5_options 50))) =
     [[tenCuredFlag 50], [lowConfidenceFlag 91], [tenCuredFlag 50], []] \<and>
   overage (evaluateTenPercent w3_rows Map.empty (w5_options 50)) = 50 \<and>
   status_ten (evaluateTenPercent w3_rows Map.empty (w5_options 50)) = OVER"
proof -
  note a = C5_lender_credit_is_annotation_only
             [OF refl refl refl refl refl, of w5_rows BucketA "w5_options 2" w3_rows Map.empty]
  note b = C5_lender_credit_is_annotation_only
             [OF refl refl refl refl refl, of w5_rows BucketA "w5_options 50" w3_rows Map.empty]
  have c50: "cfgLenderCredits (config_of (w5_options 50)) = 50"
    unfolding w5_config by simp
  from a have "cureAmount_total (evaluateZeroTolerance w5_rows BucketA (w5_options 2)) =
      cureAmount_total (evaluateZeroTolerance w5_rows BucketA noOptions)"
    unfolding w5_options_reset by (elim conjE)
  also have "\<dots> = 2"
    unfolding cureAmount_total_eq config_noOptions w5_rows0
    by (simp add: reduce_sum_def currency_def)
  finally have 1: "cureAmount_total (evaluateZeroTolerance w5_rows BucketA (w5_options 2)) = 2" .
  from b have "rows_ten (evaluateTenPercent w3_rows Map.empty (w5_options 50)) =
       map (\<lambda>r. if overage (evaluateTenPercent w3_rows Map.empty noOptions) > 0 \<and>
                   50 \<ge> overage (evaluateTenPercent w3_rows Map.empty noOptions) \<and>
                   inTenGroup r \<and> delta r > 0
                 then r\<lparr>flags := flags r @ [tenCuredFlag 50]\<rparr> else r)
           (rows_ten (evaluateTenPercent w3_rows Map.empty noOptions))"
    unfolding w5_options_reset c50 by (elim conjE)
  then have 2: "map flags (rows_ten (evaluateTenPercent w3_rows Map.empty (w5_options 50))) =
     [[tenCuredFlag 50], [lowConfidenceFlag 91], [tenCuredFlag 50], []]"
    unfolding w3_overage w3_rows_eval w3_rows0 by simp
  from b have 3: "overage (evaluateTenPercent w3_rows Map.empty (w5_options 50)) = 50"
    "status_ten (evaluateTenPercent w3_rows Map.empty (w5_options 50)) = OVER"
    unfolding w5_options_reset w3_overage w3_status by simp_all
  show ?thesis using 1 2 3 by (simp add: w5_rows_eval)
qed

section \<open>Unlimited evaluator: per-diem interest\<close>













section \<open>Headline total: facts\<close>

lemma totalDifference_eq:
  "totalDifference zeroA zeroB ten unlimitedRows =
     (subtotalCD zeroA - subtotalLE zeroA) + (subtotalCD zeroB - subtotalLE zeroB) +
     (cdTotal ten - leBase ten) +
     (sum_list (map (\<lambda>r. borrower (cd (row r))) unlimitedRows) -
      sum_list (map (\<lambda>r. borrower (le (row r))) unlimitedRows))"
proof -
  have "foldl (\<lambda>s r. s + (borrower (cd (row r)) - borrower (le (row r)))) a unlimitedRows =
        a + (sum_list (map (\<lambda>r. borrower (cd (row r))) unlimitedRows) -
             sum_list (map (\<lambda>r. borrower (le (row r))) unlimitedRows))" for a
    by (induction unlimitedRows arbitrary: a) (simp_all add: algebra_simps)
  from this [of 0] show ?thesis by (simp add: totalDifference_def Let_def)
qed

lemma c9_eval:
  "evaluateUnlimited [c9_fee] = [\<lparr>row = c9_fee, delta = 13 / 100, status = PASS, flags = []\<rparr>]"
  by (simp add: evaluateUnlimited_def unlimitedRow_def c9_fee_def split_of_def
      borrowerDelta_def currency_def Let_def truthy_def num_def)

lemma empty_zero:
  "subtotalLE (evaluateZeroTolerance [] bkt noOptions) = 0"
  "subtotalCD (evaluateZeroTolerance [] bkt noOptions) = 0"
  unfolding subtotalLE_eq subtotalCD_eq by (simp_all add: reduce_sum_def currency_0)

lemma empty_ten:
  "leBase (evaluateTenPercent [] Map.empty noOptions) = 0"
  "cdTotal (evaluateTenPercent [] Map.empty noOptions) = 0"
  unfolding leBase_eq cdTotal_eq by (simp_all add: reduce_sum_def currency_0)

text \<open>
  Claim C9 at a failing input: with a single unlimited fee that rises from 0 to 0.125 and
  no other fee, the total difference is 0.125, which is not a whole number of cents,
  while the row's own delta is rounded to 0.13.
\<close>

theorem C9_total_difference_unrounded:
  "totalDifference (evaluateZeroTolerance [] BucketA noOptions)
     (evaluateZeroTolerance [] BucketB noOptions)
     (evaluateTenPercent [] Map.empty noOptions) (evaluateUnlimited [c9_fee]) = 1 / 8 \<and>
   \<not> is_cents (1 / 8) \<and>
   map delta (evaluateUnlimited [c9_fee]) = [13 / 100]"
  unfolding totalDifference_eq empty_zero empty_ten c9_eval
  by (simp add: c9_fee_def split_of_def is_cents_def)

section \<open>Payer split: facts\<close>

text \<open>
  Claim C4 at a failing input: an item of 500 tagged as paid by the seller, by its payer
  and by its sub-label.  \<open>getBorrowerAmount\<close> returns 500 for it, as \<open>getSellerAmount\<close>
  does.
\<close>

theorem C4_seller_item_counts_for_borrower:
  "payer c4_item = Some PayerSeller \<and> sub_label c4_item = Some seller_paid_at_closing \<and>
   amount c4_item = Some 500 \<and>
   getBorrowerAmount (Some c4_item) = 500 \<and>
   getSellerAmount (Some c4_item) = 500 \<and>
   getOtherAmount (Some c4_item) = 0"
  by (simp add: c4_item_def getBorrowerAmount_def getSellerAmount_def getOtherAmount_def
      sub_label_includes_def)

text \<open>\<open>getBorrowerAmount\<close> returns the amount of every item that has one.\<close>

lemma getBorrowerAmount_eq:
  "getBorrowerAmount item =
     (case item of None \<Rightarrow> 0 | Some it \<Rightarrow> (case amount it of None \<Rightarrow> 0 | Some a \<Rightarrow> a))"
  by (simp add: getBorrowerAmount_def split: option.splits)

section \<open>The merge: facts\<close>

lemma map_of_itemMap_set: "map_of (itemMap_set k v m) = (map_of m)(k \<mapsto> v)"
  by (induction m) (auto simp: fun_eq_iff)

lemma keys_itemMap_set: "fst ` set (itemMap_set k v m) = insert k (fst ` set m)"
  by (simp add: dom_map_of_conv_image_fst [symmetric] map_of_itemMap_set)

lemma distinct_itemMap_set:
  "distinct (map fst m) \<Longrightarrow> distinct (map fst (itemMap_set k v m))"
proof (induction m)
  case Nil
  then show ?case by simp
next
  case (Cons p m)
  obtain k' v' where p: "p = (k', v')" by (cases p)
  show ?case
  proof (cases "k' = k")
    case True
    with Cons.prems p show ?thesis by simp
  next
    case False
    have "k' \<notin> fst ` set (itemMap_set k v m)"
      using Cons.prems False p by (simp add: keys_itemMap_set)
    with Cons p False show ?thesis by simp
  qed
qed

lemma map_of_insertLE:
  "map_of (insertLE m x) =
     (if has_label x
      then (map_of m)(item_key x \<mapsto>
             \<lparr>le_item = Some x, cd_item = None, displayLabel = label_text x\<rparr>)
      else map_of m)"
  by (simp add: insertLE_def map_of_itemMap_set)

lemma map_of_insertCD:
  "map_of (insertCD m y) =
     (if has_label y
      then (map_of m)(item_key y \<mapsto>
             (case map_of m (item_key y) of
                Some existing \<Rightarrow> existing\<lparr>cd_item := Some y\<rparr>
              | None \<Rightarrow> \<lparr>le_item = None, cd_item = Some y, displayLabel = label_text y\<rparr>))
      else map_of m)"
  by (simp add: insertCD_def itemMap_get_def map_of_itemMap_set split: option.splits)

lemma distinct_insertLE: "distinct (map fst m) \<Longrightarrow> distinct (map fst (insertLE m x))"
  by (simp add: insertLE_def distinct_itemMap_set)

lemma distinct_insertCD: "distinct (map fst m) \<Longrightarrow> distinct (map fst (insertCD m y))"
  by (simp add: insertCD_def distinct_itemMap_set split: option.splits)

lemma distinct_foldl_insertLE:
  "distinct (map fst m) \<Longrightarrow> distinct (map fst (foldl insertLE m xs))"
  by (induction xs arbitrary: m) (simp_all add: distinct_insertLE)

lemma distinct_foldl_insertCD:
  "distinct (map fst m) \<Longrightarrow> distinct (map fst (foldl insertCD m ys))"
  by (induction ys arbitrary: m) (simp_all add: distinct_insertCD)

lemma distinct_mergeItems: "distinct (map fst (mergeItems leItems cdItems))"
  unfolding mergeItems_def by (intro distinct_foldl_insertCD distinct_foldl_insertLE) simp

lemma last_with_key_snoc:
  "last_with_key k (xs @ [x]) =
     (if has_label x \<and> item_key x = k then Some x else last_with_key k xs)"
  by (simp add: last_with_key_def)

lemma last_with_key_Nil: "last_with_key k [] = None"
  by (simp add: last_with_key_def)

lemma last_with_key_SomeD:
  "last_with_key k xs = Some x \<Longrightarrow> x \<in> set xs \<and> has_label x \<and> item_key x = k"
  by (induction xs rule: rev_induct)
     (auto simp: last_with_key_snoc last_with_key_Nil split: if_splits)

lemma last_with_key_None_iff: "last_with_key k xs = None \<longleftrightarrow> k \<notin> keys_of xs"
  unfolding last_with_key_def keys_of_def by (auto simp: find_None_iff)

lemma le_phase:
  "map_of (foldl insertLE [] xs) k =
     map_option (\<lambda>x. \<lparr>le_item = Some x, cd_item = None, displayLabel = label_text x\<rparr>)
       (last_with_key k xs)"
proof (induction xs rule: rev_induct)
  case Nil
  then show ?case by (simp add: last_with_key_Nil)
next
  case (snoc x xs)
  then show ?case by (simp add: map_of_insertLE last_with_key_snoc)
qed

lemma cd_phase_le: "entry_le (foldl insertCD m ys) k = entry_le m k"
proof (induction ys rule: rev_induct)
  case Nil
  then show ?case by simp
next
  case (snoc y ys)
  have "entry_le (insertCD m' y) k = entry_le m' k" for m'
    by (simp add: entry_le_def map_of_insertCD split: option.splits)
  with snoc show ?case by simp
qed

lemma cd_phase_cd:
  "entry_cd (foldl insertCD m ys) k =
     (case last_with_key k ys of Some y \<Rightarrow> Some y | None \<Rightarrow> entry_cd m k)"
proof (induction ys rule: rev_induct)
  case Nil
  then show ?case by (simp add: last_with_key_Nil)
next
  case (snoc y ys)
  have "entry_cd (insertCD m' y) k =
          (if has_label y \<and> item_key y = k then Some y else entry_cd m' k)" for m'
    by (simp add: entry_cd_def map_of_insertCD split: option.splits)
  with snoc show ?case by (simp add: last_with_key_snoc)
qed

lemma cd_phase_dom:
  "dom (map_of (foldl insertCD m ys)) = dom (map_of m) \<union> keys_of ys"
proof (induction ys rule: rev_induct)
  case Nil
  then show ?case by (simp add: keys_of_def)
next
  case (snoc y ys)
  have "dom (map_of (insertCD m' y)) = dom (map_of m') \<union> (if has_label y then {item_key y} else {})" for m'
    by (simp add: map_of_insertCD)
  with snoc show ?case by (auto simp: keys_of_def)
qed

lemma le_phase_dom: "dom (map_of (foldl insertLE [] xs)) = keys_of xs"
  by (auto simp: le_phase last_with_key_None_iff dom_def)

lemma merge_dom: "dom (map_of (mergeItems leItems cdItems)) = keys_of leItems \<union> keys_of cdItems"
  by (simp add: mergeItems_def cd_phase_dom le_phase_dom)

lemma merge_le: "entry_le (mergeItems leItems cdItems) k = last_with_key k leItems"
  unfolding mergeItems_def cd_phase_le
  by (cases "last_with_key k leItems") (simp_all add: entry_le_def le_phase)

lemma merge_cd: "entry_cd (mergeItems leItems cdItems) k = last_with_key k cdItems"
  unfolding mergeItems_def cd_phase_cd
  by (cases "last_with_key k cdItems"; cases "last_with_key k leItems")
     (simp_all add: entry_cd_def le_phase)

lemma zeroFeesFrom_length: "length (zeroFeesFrom prefix index m) = length m"
  by (induction m arbitrary: index) auto

lemma zeroFeesFrom_splits:
  "map le (zeroFeesFrom prefix index m) = map (\<lambda>(k, e). payerSplit (le_item e)) m \<and>
   map cd (zeroFeesFrom prefix index m) = map (\<lambda>(k, e). payerSplit (cd_item e)) m \<and>
   map fee (zeroFeesFrom prefix index m) =
     map (\<lambda>(k, e). displayLabelOf k (le_item e) (cd_item e)) m"
  by (induction m arbitrary: index) auto

text \<open>
  Claim C7, as amended.  In the merge of the LE items and the CD items of one section,
  items with an absent or empty label are skipped.  The map has one entry for every key
  of a labelled item and no two entries with the same key.  A labelled LE item and a
  labelled CD item whose labels normalize to the same key are in the one entry of that
  key, which has both sides populated: its LE side is the last LE item of the key and
  its CD side the last CD item of the key.  The items of an entry have the key of the
  entry, so an LE item and a CD item with different keys are never in one entry, and no
  entry has both sides empty.  The LE items are inserted first, a labelled one setting
  the entry of its key to a new LE-only entry (so that a later LE item replaces an
  earlier one of the same key); the CD items follow, a labelled one setting the CD side
  of the entry of its key or, when the key is new, adding a CD-only entry.
\<close>

theorem C7_merge_by_normalized_key:
  assumes m: "m = mergeItems leItems cdItems"
  shows
   "distinct (map fst m) \<and>
    fst ` set m = keys_of leItems \<union> keys_of cdItems \<and>
    (\<forall>x \<in> set leItems. \<forall>y \<in> set cdItems.
        has_label x \<and> has_label y \<and> item_key x = item_key y \<longrightarrow>
          (\<exists>e. map_of m (item_key x) = Some e \<and>
               le_item e = last_with_key (item_key x) leItems \<and> le_item e \<noteq> None \<and>
               cd_item e = last_with_key (item_key x) cdItems \<and> cd_item e \<noteq> None)) \<and>
    (\<forall>(k, e) \<in> set m.
        (\<forall>x. le_item e = Some x \<longrightarrow> x \<in> set leItems \<and> has_label x \<and> item_key x = k) \<and>
        (\<forall>y. cd_item e = Some y \<longrightarrow> y \<in> set cdItems \<and> has_label y \<and> item_key y = k) \<and>
        (le_item e \<noteq> None \<or> cd_item e \<noteq> None)) \<and>
    m = foldl insertCD (foldl insertLE [] leItems) cdItems \<and>
    (\<forall>m0 x. map_of (insertLE m0 x) =
        (if has_label x
         then (map_of m0)(item_key x \<mapsto>
                \<lparr>le_item = Some x, cd_item = None, displayLabel = label_text x\<rparr>)
         else map_of m0)) \<and>
    (\<forall>m0 y. map_of (insertCD m0 y) =
        (if has_label y
         then (map_of m0)(item_key y \<mapsto>
                (case map_of m0 (item_key y) of
                   Some existing \<Rightarrow> existing\<lparr>cd_item := Some y\<rparr>
                 | None \<Rightarrow> \<lparr>le_item = None, cd_item = Some y, displayLabel = label_text y\<rparr>))
         else map_of m0))"
proof (intro conjI)
  show d: "distinct (map fst m)" unfolding m by (rule distinct_mergeItems)
  show dom: "fst ` set m = keys_of leItems \<union> keys_of cdItems"
    unfolding m using merge_dom [of leItems cdItems]
    by (simp add: dom_map_of_conv_image_fst)
  show "m = foldl insertCD (foldl insertLE [] leItems) cdItems"
    unfolding m by (rule mergeItems_def)
  show "\<forall>m0 x. map_of (insertLE m0 x) =
        (if has_label x
         then (map_of m0)(item_key x \<mapsto>
                \<lparr>le_item = Some x, cd_item = None, displayLabel = label_text x\<rparr>)
         else map_of m0)"
    by (intro allI) (rule map_of_insertLE)
  show "\<forall>m0 y. map_of (insertCD m0 y) =
        (if has_label y
         then (map_of m0)(item_key y \<mapsto>
                (case map_of m0 (item_key y) of
                   Some existing \<Rightarrow> existing\<lparr>cd_item := Some y\<rparr>
                 | None \<Rightarrow> \<lparr>le_item = None, cd_item = Some y, displayLabel = label_text y\<rparr>))
         else map_of m0)"
    by (intro allI) (rule map_of_insertCD)
  show "\<forall>x \<in> set leItems. \<forall>y \<in> set cdItems.
        has_label x \<and> has_label y \<and> item_key x = item_key y \<longrightarrow>
          (\<exists>e. map_of m (item_key x) = Some e \<and>
               le_item e = last_with_key (item_key x) leItems \<and> le_item e \<noteq> None \<and>
               cd_item e = last_with_key (item_key x) cdItems \<and> cd_item e \<noteq> None)"
  proof (intro ballI impI)
    fix x y assume x: "x \<in> set leItems" and y: "y \<in> set cdItems"
      and h: "has_label x \<and> has_label y \<and> item_key x = item_key y"
    define k where "k = item_key x"
    have kl: "k \<in> keys_of leItems" using x h unfolding keys_of_def k_def by blast
    have kc: "k \<in> keys_of cdItems" using y h unfolding keys_of_def k_def by force
    from kl have "k \<in> dom (map_of m)" unfolding m merge_dom by simp
    then obtain e where e: "map_of m k = Some e" by blast
    have l: "le_item e = last_with_key k leItems"
      using merge_le [of leItems cdItems k] e unfolding m entry_le_def by simp
    have c: "cd_item e = last_with_key k cdItems"
      using merge_cd [of leItems cdItems k] e unfolding m entry_cd_def by simp
    from kl kc have "last_with_key k leItems \<noteq> None" "last_with_key k cdItems \<noteq> None"
      by (simp_all add: last_with_key_None_iff)
    with e l c show "\<exists>e. map_of m (item_key x) = Some e \<and>
               le_item e = last_with_key (item_key x) leItems \<and> le_item e \<noteq> None \<and>
               cd_item e = last_with_key (item_key x) cdItems \<and> cd_item e \<noteq> None"
      unfolding k_def by simp
  qed
  show "\<forall>(k, e) \<in> set m.
        (\<forall>x. le_item e = Some x \<longrightarrow> x \<in> set leItems \<and> has_label x \<and> item_key x = k) \<and>
        (\<forall>y. cd_item e = Some y \<longrightarrow> y \<in> set cdItems \<and> has_label y \<and> item_key y = k) \<and>
        (le_item e \<noteq> None \<or> cd_item e \<noteq> None)"
  proof (intro ballI, clarify)
    fix k e assume "(k, e) \<in> set m"
    with d have e: "map_of m k = Some e" by simp
    have l: "le_item e = last_with_key k leItems"
      using merge_le [of leItems cdItems k] e unfolding m entry_le_def by simp
    have c: "cd_item e = last_with_key k cdItems"
      using merge_cd [of leItems cdItems k] e unfolding m entry_cd_def by simp
    from e have "k \<in> dom (map_of m)" by blast
    then have "k \<in> keys_of leItems \<or> k \<in> keys_of cdItems" unfolding m merge_dom by simp
    then have "le_item e \<noteq> None \<or> cd_item e \<noteq> None"
      unfolding l c by (simp add: last_with_key_None_iff)
    then show "(\<forall>x. le_item e = Some x \<longrightarrow> x \<in> set leItems \<and> has_label x \<and> item_key x = k) \<and>
        (\<forall>y. cd_item e = Some y \<longrightarrow> y \<in> set cdItems \<and> has_label y \<and> item_key y = k) \<and>
        (le_item e \<noteq> None \<or> cd_item e \<noteq> None)"
      unfolding l c using last_with_key_SomeD by blast
  qed
qed

section \<open>The merge: examples\<close>

lemma example_labels:
  "has_label (line_item ''Appraisal Fee to A'' a)"
  "has_label (line_item ''Appraisal Fee to B'' a)"
  "\<not> has_label (line_item [] a)"
  "has_label (line_item ''01 Appraisal Fee to ABC Appraisers'' a)"
  "has_label (line_item ''Credit Report'' a)"
  "has_label (line_item ''Appraisal  FEE'' a)"
  "has_label (line_item ''Flood Certification'' a)"
  by (simp_all add: has_label_def line_item_def)

lemma item_key_line_item: "item_key (line_item l a) = normalizeFee (Some l)"
  by (simp add: item_key_def line_item_def)

lemma example_keys:
  "normalizeFee (Some ''Appraisal Fee to A'') = ''appraisal fee''"
  "normalizeFee (Some ''Appraisal Fee to B'') = ''appraisal fee''"
  "normalizeFee (Some []) = []"
  "normalizeFee (Some ''01 Appraisal Fee to ABC Appraisers'') = ''appraisal fee''"
  "normalizeFee (Some ''Credit Report'') = ''credit report''"
  "normalizeFee (Some ''Appraisal  FEE'') = ''appraisal fee''"
  "normalizeFee (Some ''Flood Certification'') = ''flood certification''"
  by code_simp+

lemma label_text_line_item: "label_text (line_item l a) = l"
  by (simp add: label_text_def line_item_def)

lemma c7_merge:
  "mergeItems c7_le c7_cd =
     [(''appraisal fee'',
       \<lparr>le_item = Some (line_item ''Appraisal Fee to B'' 200), cd_item = None,
        displayLabel = ''Appraisal Fee to B''\<rparr>)]"
  by (simp add: mergeItems_def c7_le_def c7_cd_def insertLE_def insertCD_def example_labels
      item_key_line_item example_keys label_text_line_item itemMap_get_def)

text \<open>
  Claim C7 as stated fails.  The first LE item and the CD item have empty labels, which
  normalize to the same (empty) key, and no entry holds them; the second and third LE
  items are labelled and share a key, and only the third has an entry.  Three LE items
  and one CD item leave one entry, and \<open>transformSectionA\<close> returns one fee.
\<close>

theorem C7_counterexample:
  "item_key (c7_le ! 0) = item_key (c7_cd ! 0) \<and>
   has_label (c7_le ! 1) \<and> has_label (c7_le ! 2) \<and> length c7_le = 3 \<and> length c7_cd = 1 \<and>
   mergeItems c7_le c7_cd =
     [(''appraisal fee'',
       \<lparr>le_item = Some (c7_le ! 2), cd_item = None, displayLabel = ''Appraisal Fee to B''\<rparr>)] \<and>
   length (transformSectionA
     (Some \<lparr>closing_cost_details = Some \<lparr>loan_costs = Some \<lparr>section_A = Some \<lparr>items = Some c7_le\<rparr>,
        section_B = None, section_C = None\<rparr>, other_costs = None\<rparr>, loan_terms = None\<rparr>)
     (Some \<lparr>closing_cost_details = Some \<lparr>loan_costs = Some \<lparr>section_A = Some \<lparr>items = Some c7_cd\<rparr>,
        section_B = None, section_C = None\<rparr>, other_costs = None\<rparr>, loan_terms = None\<rparr>)) = 1"
  unfolding transformSectionA_def zeroFeesFrom_length
  by (simp add: loanCostsOf_def itemsOf_def c7_merge)
     (simp add: c7_le_def c7_cd_def item_key_line_item example_keys example_labels)

lemma w7_merge:
  "mergeItems w7_le w7_cd =
     [(''appraisal fee'',
       \<lparr>le_item = Some (line_item ''01 Appraisal Fee to ABC Appraisers'' 500),
        cd_item = Some (line_item ''Appraisal  FEE'' 550),
        displayLabel = ''01 Appraisal Fee to ABC Appraisers''\<rparr>),
      (''credit report'',
       \<lparr>le_item = Some (line_item ''Credit Report'' 30), cd_item = None,
        displayLabel = ''Credit Report''\<rparr>),
      (''flood certification'',
       \<lparr>le_item = None, cd_item = Some (line_item ''Flood Certification'' 20),
        displayLabel = ''Flood Certification''\<rparr>)]"
  by (simp add: mergeItems_def w7_le_def w7_cd_def insertLE_def insertCD_def example_labels
      item_key_line_item example_keys label_text_line_item itemMap_get_def)

text \<open>
  Claim C7 at two LE items and two CD items: the appraisal fees are labelled differently
  and normalize to one key, the other two items have keys of their own.
\<close>

theorem C7_witness:
  "distinct (map fst (mergeItems w7_le w7_cd)) \<and>
   has_label (w7_le ! 0) \<and> has_label (w7_cd ! 0) \<and> item_key (w7_le ! 0) = item_key (w7_cd ! 0) \<and>
   item_key (w7_le ! 1) \<noteq> item_key (w7_cd ! 1) \<and>
   mergeItems w7_le w7_cd =
     [(''appraisal fee'',
       \<lparr>le_item = Some (w7_le ! 0), cd_item = Some (w7_cd ! 0),
        displayLabel = ''01 Appraisal Fee to ABC Appraisers''\<rparr>),
      (''credit report'',
       \<lparr>le_item = Some (w7_le ! 1), cd_item = None, displayLabel = ''Credit Report''\<rparr>),
      (''flood certification'',
       \<lparr>le_item = None, cd_item = Some (w7_cd ! 1), displayLabel = ''Flood Certification''\<rparr>)]"
  using conjunct1 [OF C7_merge_by_normalized_key [OF refl, of w7_le w7_cd]]
  by (simp add: w7_merge)
     (simp add: w7_le_def w7_cd_def item_key_line_item example_keys example_labels)

section \<open>Pre-matched path: facts\<close>

lemma rows_zero_cases:
  assumes "r \<in> set (rows_zero (evaluateZeroTolerance rows bkt options))"
  shows "\<exists>x \<in> set rows.
           row r = x \<and> delta r = delta (zeroRow bkt (config_of options) x) \<and>
           status r = status (zeroRow bkt (config_of options) x) \<and>
           cureAmount r = cureAmount (zeroRow bkt (config_of options) x) \<and>
           set (flags (zeroRow bkt (config_of options) x)) \<subseteq> set (flags r)"
proof -
  from assms obtain r0 where r0: "r0 \<in> set (map (zeroRow bkt (config_of options)) rows)"
    and r: "r = r0 \<or> r = r0\<lparr>flags := flags r0 @ [zeroCuredFlag (cfgLenderCredits (config_of options))]\<rparr>"
    unfolding rows_zero_eq using zeroCure_cases by blast
  from r0 obtain x where x: "x \<in> set rows" "r0 = zeroRow bkt (config_of options) x" by auto
  from r have "row r = row r0" "delta r = delta r0" "status r = status r0"
    "cureAmount r = cureAmount r0" "set (flags r0) \<subseteq> set (flags r)" by auto
  with x show ?thesis by (auto simp: zeroRow_row)
qed

lemma transformToZeroTolerance_B:
  "fee_section f = ''B'' \<Longrightarrow> permittedToShop (transformToZeroTolerance f) = Some True"
  by (simp add: transformToZeroTolerance_def)

lemma pushMatchedFee_eq:
  "pushMatchedFee ds f =
     \<lparr>origination = origination ds @ (if keptZero ''A'' f then [transformToZeroTolerance f] else []),
      cannotShop = cannotShop ds @ (if keptZero ''B'' f then [transformToZeroTolerance f] else [])\<rparr>"
  by (simp add: pushMatchedFee_def keptZero_def)

lemma foldl_pushMatchedFee:
  "foldl pushMatchedFee ds fees =
     \<lparr>origination = origination ds @ map transformToZeroTolerance (filter (keptZero ''A'') fees),
      cannotShop = cannotShop ds @ map transformToZeroTolerance (filter (keptZero ''B'') fees)\<rparr>"
proof (induction fees arbitrary: ds)
  case Nil
  then show ?case by simp
next
  case (Cons f fees)
  show ?case unfolding foldl_Cons Cons.IH
    by (simp add: pushMatchedFee_eq)
qed

lemma cannotShop_eq:
  "cannotShop (transformAIMatchedData (Some \<lparr>matched_fees = Some fees\<rparr>)) =
     map transformToZeroTolerance (filter (keptZero ''B'') fees)"
  by (simp add: transformAIMatchedData_def foldl_pushMatchedFee emptyDataset_def)

lemma cannotShop_permitted:
  assumes "f \<in> set (cannotShop (transformAIMatchedData cmp))"
  shows "permittedToShop f = Some True"
proof (cases "Option.bind cmp matched_fees")
  case None
  with assms show ?thesis by (simp add: transformAIMatchedData_def emptyDataset_def)
next
  case (Some fees)
  with assms obtain g where "g \<in> set fees" "keptZero ''B'' g" "f = transformToZeroTolerance g"
    by (auto simp: transformAIMatchedData_def foldl_pushMatchedFee emptyDataset_def)
  then show ?thesis by (simp add: keptZero_def transformToZeroTolerance_B)
qed

text \<open>
  Claim C10.  \<open>transformToZeroTolerance\<close> sets \<open>permittedToShop\<close> to true for every
  matched fee of section B.  On the pre-matched path the \<open>cannotShop\<close> list is made of
  the matched fees of category zero and section B that are not dropped for having no
  amount, each transformed so, and every fee of the list has \<open>permittedToShop\<close> true.
  \<open>evaluateZeroTolerance\<close> over this list in bucket B returns a row for each of them,
  and every row carries the \<open>SECTION_PLACEMENT_MISMATCH\<close> flag and is never \<open>PASS\<close>: it
  is \<open>REVIEW\<close> when \<open>delta \<le> zeroThreshold\<close> and \<open>FAIL\<close> otherwise.
\<close>

theorem C10_ai_section_B_rows_are_always_flagged:
  assumes ds: "ds = transformAIMatchedData cmp"
    and res: "res = evaluateZeroTolerance (cannotShop ds) BucketB options"
    and thr: "thr = cfgZeroThreshold (config_of options)"
  shows
    "(\<forall>f :: MatchedFee. fee_section f = ''B'' \<longrightarrow>
        permittedToShop (transformToZeroTolerance f) = Some True) \<and>
     (\<forall>fees. cmp = Some \<lparr>matched_fees = Some fees\<rparr> \<longrightarrow>
        cannotShop ds = map transformToZeroTolerance (filter (keptZero ''B'') fees)) \<and>
     (\<forall>f \<in> set (cannotShop ds). permittedToShop f = Some True) \<and>
     map row (rows_zero res) = cannotShop ds \<and>
     (\<forall>r \<in> set (rows_zero res).
        placementFlag \<in> set (flags r) \<and> status r \<noteq> PASS \<and>
        (delta r \<le> thr \<longrightarrow> status r = REVIEW) \<and>
        (\<not> delta r \<le> thr \<longrightarrow> status r = FAIL))"
proof (intro conjI allI impI ballI)
  fix f :: MatchedFee assume "fee_section f = ''B''"
  then show "permittedToShop (transformToZeroTolerance f) = Some True"
    by (rule transformToZeroTolerance_B)
next
  fix fees assume "cmp = Some \<lparr>matched_fees = Some fees\<rparr>"
  then show "cannotShop ds = map transformToZeroTolerance (filter (keptZero ''B'') fees)"
    unfolding ds by (simp add: cannotShop_eq)
next
  fix f assume "f \<in> set (cannotShop ds)"
  then show "permittedToShop f = Some True" unfolding ds by (rule cannotShop_permitted)
next
  show "map row (rows_zero res) = cannotShop ds"
    unfolding res rows_zero_eq zeroCure_map_row by (simp add: zeroRow_row cong: map_cong)
next
  fix r assume "r \<in> set (rows_zero res)"
  then obtain x where x: "x \<in> set (cannotShop ds)" "row r = x"
    "delta r = delta (zeroRow BucketB (config_of options) x)"
    "status r = status (zeroRow BucketB (config_of options) x)"
    "set (flags (zeroRow BucketB (config_of options) x)) \<subseteq> set (flags r)"
    unfolding res using rows_zero_cases by blast
  from x(1) have p: "permittedToShop x = Some True" unfolding ds by (rule cannotShop_permitted)
  have "placementFlag \<in> set (flags (zeroRow BucketB (config_of options) x))"
    using p by (simp add: zeroRow_flags)
  with x(5) show "placementFlag \<in> set (flags r)" by blast
  show "status r \<noteq> PASS" unfolding x(4) using p by (simp add: zeroRow_status)
  { assume "delta r \<le> thr"
    then show "status r = REVIEW" unfolding x(3,4) thr using p by (simp add: zeroRow_status) }
  { assume "\<not> delta r \<le> thr"
    then show "status r = FAIL" unfolding x(3,4) thr by (simp add: zeroRow_status) }
qed

section \<open>Pre-matched path: example\<close>

lemma w10_kept: "filter (keptZero ''B'') w10_fees = [w10_fees ! 0, w10_fees ! 2]"
  by (simp add: w10_fees_def keptZero_def matched_fee_def num_def)

lemma w10_rows0:
  "map (zeroRow BucketB DEFAULTS) (map transformToZeroTolerance [w10_fees ! 0, w10_fees ! 2]) =
     [\<lparr>row = transformToZeroTolerance (w10_fees ! 0), delta = 0, status = REVIEW,
        flags = [placementFlag], cureAmount = 0\<rparr>,
      \<lparr>row = transformToZeroTolerance (w10_fees ! 2), delta = 15, status = FAIL,
        flags = [zeroOverageFlag 14, placementFlag], cureAmount = 14\<rparr>]"
  by (simp add: zeroRow_def transformToZeroTolerance_def w10_fees_def matched_fee_def num_def
      DEFAULTS_def borrowerDelta_def currency_def Let_def zeroOverageFlag_def placementFlag_def)

lemma w10_rows_eval:
  "rows_zero (evaluateZeroTolerance
       (cannotShop (transformAIMatchedData (Some \<lparr>matched_fees = Some w10_fees\<rparr>)))
       BucketB noOptions) =
     [\<lparr>row = transformToZeroTolerance (w10_fees ! 0), delta = 0, status = REVIEW,
        flags = [placementFlag], cureAmount = 0\<rparr>,
      \<lparr>row = transformToZeroTolerance (w10_fees ! 2), delta = 15, status = FAIL,
        flags = [zeroOverageFlag 14, placementFlag], cureAmount = 14\<rparr>]"
  unfolding rows_zero_eq cannotShop_eq w10_kept config_noOptions w10_rows0
  by (simp add: zeroCure_def DEFAULTS_def)

text \<open>
  Claim C10 at five matched fees: of the three zero-tolerance fees of section B one is
  dropped for having no amount, the one without change is \<open>REVIEW\<close> and the one that
  rises by 15 is \<open>FAIL\<close>, both with the placement flag.
\<close>

theorem C10_witness:
  "cannotShop (transformAIMatchedData (Some \<lparr>matched_fees = Some w10_fees\<rparr>)) =
     [transformToZeroTolerance (w10_fees ! 0), transformToZeroTolerance (w10_fees ! 2)] \<and>
   map fee_section w10_fees = [''B'', ''A'', ''B'', ''B'', ''C''] \<and>
   map status (rows_zero (evaluateZeroTolerance
       (cannotShop (transformAIMatchedData (Some \<lparr>matched_fees = Some w10_fees\<rparr>)))
       BucketB noOptions)) = [REVIEW, FAIL] \<and>
   map flags (rows_zero (evaluateZeroTolerance
       (cannotShop (transformAIMatchedData (Some \<lparr>matched_fees = Some w10_fees\<rparr>)))
       BucketB noOptions)) = [[placementFlag], [zeroOverageFlag 14, placementFlag]]"
proof -
  note t = C10_ai_section_B_rows_are_always_flagged
             [OF refl refl refl, of "Some \<lparr>matched_fees = Some w10_fees\<rparr>" noOptions]
  from t have "cannotShop (transformAIMatchedData (Some \<lparr>matched_fees = Some w10_fees\<rparr>)) =
      map transformToZeroTolerance (filter (keptZero ''B'') w10_fees)"
    by blast
  then have 1: "cannotShop (transformAIMatchedData (Some \<lparr>matched_fees = Some w10_fees\<rparr>)) =
     [transformToZeroTolerance (w10_fees ! 0), transformToZeroTolerance (w10_fees ! 2)]"
    unfolding w10_kept by simp
  have 2: "map fee_section w10_fees = [''B'', ''A'', ''B'', ''B'', ''C'']"
    by (simp add: w10_fees_def matched_fee_def)
  have 3: "map status (rows_zero (evaluateZeroTolerance
       (cannotShop (transformAIMatchedData (Some \<lparr>matched_fees = Some w10_fees\<rparr>)))
       BucketB noOptions)) = [REVIEW, FAIL]"
    and 4: "map flags (rows_zero (evaluateZeroTolerance
       (cannotShop (transformAIMatchedData (Some \<lparr>matched_fees = Some w10_fees\<rparr>)))
       BucketB noOptions)) = [[placementFlag], [zeroOverageFlag 14, placementFlag]]"
    by (simp_all add: w10_rows_eval)
  from 1 2 3 4 show ?thesis by (intro conjI)
qed

section \<open>Ten-percent sections of the raw documents: facts\<close>

lemma tenFee_providerType: "providerType (tenFee draws drawn index k v) = entry_type v"
  by (simp add: tenFee_def Let_def)

lemma tenFee_onWhitelist:
  "onWhitelist (tenFee draws drawn index k v) =
     (if entry_type v = ProviderE then True else draws drawn > 3 / 10)"
  by (simp add: tenFee_def Let_def)

lemma tenFee_up_to_onWhitelist:
  "(tenFee draws1 drawn1 index k v)\<lparr>onWhitelist := True\<rparr> =
   (tenFee draws2 drawn2 index k v)\<lparr>onWhitelist := True\<rparr>"
  by (simp add: tenFee_def Let_def)

lemma tenFee_same_draw:
  "draws1 drawn = draws2 drawn \<Longrightarrow> tenFee draws1 drawn index k v = tenFee draws2 drawn index k v"
  by (simp add: tenFee_def Let_def)

lemma tenFeesFrom_length: "length (tenFeesFrom draws drawn index m) = length m"
  by (induction m arbitrary: drawn index) auto

lemma tenFeesFrom_up_to_onWhitelist:
  "map (\<lambda>f. f\<lparr>onWhitelist := True\<rparr>) (tenFeesFrom draws1 drawn1 index m) =
   map (\<lambda>f. f\<lparr>onWhitelist := True\<rparr>) (tenFeesFrom draws2 drawn2 index m)"
proof (induction m arbitrary: drawn1 drawn2 index)
  case Nil
  then show ?case by simp
next
  case (Cons p m)
  obtain k v where p: "p = (k, v)" by (cases p)
  show ?case unfolding p tenFeesFrom.simps list.map
    using Cons.IH [of "if entry_type v = ProviderE then drawn1 else Suc drawn1" "Suc index"
                      "if entry_type v = ProviderE then drawn2 else Suc drawn2"]
      tenFee_up_to_onWhitelist [of draws1 drawn1 index k v draws2 drawn2]
    by (simp only:)
qed

lemma tenFeesFrom_recording:
  assumes "f \<in> set (tenFeesFrom draws drawn index m)" and "providerType f = ProviderE"
  shows "onWhitelist f"
  using assms
proof (induction m arbitrary: drawn index)
  case Nil
  then show ?case by simp
next
  case (Cons p m)
  obtain k v where p: "p = (k, v)" by (cases p)
  from Cons.prems(1) have "f = tenFee draws drawn index k v \<or>
      f \<in> set (tenFeesFrom draws (if entry_type v = ProviderE then drawn else Suc drawn) (Suc index) m)"
    unfolding p by simp
  then show ?case
  proof
    assume f: "f = tenFee draws drawn index k v"
    with Cons.prems(2) have "entry_type v = ProviderE" by (simp add: tenFee_providerType)
    then show ?thesis unfolding f by (simp add: tenFee_onWhitelist)
  next
    assume "f \<in> set (tenFeesFrom draws (if entry_type v = ProviderE then drawn else Suc drawn) (Suc index) m)"
    then show ?thesis using Cons.prems(2) by (rule Cons.IH)
  qed
qed

lemma tenFeesFrom_same_draws:
  assumes "\<forall>j. drawn \<le> j \<and> j < drawn + length m \<longrightarrow> draws1 j = draws2 j"
  shows "tenFeesFrom draws1 drawn index m = tenFeesFrom draws2 drawn index m"
  using assms
proof (induction m arbitrary: drawn index)
  case Nil
  then show ?case by simp
next
  case (Cons p m)
  obtain k v where p: "p = (k, v)" by (cases p)
  define drawn' where "drawn' = (if entry_type v = ProviderE then drawn else Suc drawn)"
  have "\<forall>j. drawn' \<le> j \<and> j < drawn' + length m \<longrightarrow> draws1 j = draws2 j"
    using Cons.prems unfolding drawn'_def by auto
  then have tl: "tenFeesFrom draws1 drawn' (Suc index) m = tenFeesFrom draws2 drawn' (Suc index) m"
    by (rule Cons.IH)
  have "draws1 drawn = draws2 drawn" using Cons.prems by simp
  then have hd: "tenFee draws1 drawn index k v = tenFee draws2 drawn index k v"
    by (rule tenFee_same_draw)
  show ?case unfolding p tenFeesFrom.simps drawn'_def [symmetric] tl hd ..
qed

section \<open>Ten-percent sections of the raw documents: example\<close>

lemma title_search:
  "has_label (line_item ''Title Search'' a)"
  "normalizeFee (Some ''Title Search'') = ''title search''"
  by (simp add: has_label_def line_item_def, code_simp)

lemma c6_merge:
  "mergeTenPercent [line_item ''Title Search'' 100] [] [line_item ''Title Search'' 200] [] =
     [(''title search'', c6_entry)]"
  by (simp add: mergeTenPercent_def insertLE_C_def insertCD_C_def title_search
      item_key_line_item label_text_line_item itemMap_get_def c6_entry_def)

lemma c6_rows:
  "transformTenPercent draws (Some c6_le) (Some c6_cd) = [tenFee draws 0 0 ''title search'' c6_entry]"
  unfolding transformTenPercent_def
  by (simp add: c6_le_def c6_cd_def loanCostsOf_def otherCostsOf_def itemsOf_def c6_merge)

lemma c6_amounts:
  "borrower (le (tenFee draws 0 0 ''title search'' c6_entry)) = 100"
  "borrower (cd (tenFee draws 0 0 ''title search'' c6_entry)) = 200"
  "providerType (tenFee draws 0 0 ''title search'' c6_entry) = ProviderC"
  "isRecording (tenFee draws 0 0 ''title search'' c6_entry) = Some False"
  "matchConfidence (tenFee draws 0 0 ''title search'' c6_entry) = 95 / 100"
  "onWhitelist (tenFee draws 0 0 ''title search'' c6_entry) = (draws 0 > 3 / 10)"
  by (simp_all add: tenFee_def Let_def c6_entry_def payerSplit_def getBorrowerAmount_def
      line_item_def)

lemma c6_tenRow:
  "inTenGroup (tenRow Map.empty DEFAULTS (tenFee draws 0 0 ''title search'' c6_entry)) =
     (draws 0 > 3 / 10)"
  unfolding tenRow_inTenGroup tenRow_effectiveOnWhitelist c6_amounts
  by (simp add: DEFAULTS_def)

lemma c6_high:
  "leBase (evaluateTenPercent (transformTenPercent draws_high (Some c6_le) (Some c6_cd))
     Map.empty noOptions) = 100"
  "cdTotal (evaluateTenPercent (transformTenPercent draws_high (Some c6_le) (Some c6_cd))
     Map.empty noOptions) = 200"
  unfolding leBase_eq cdTotal_eq c6_rows config_noOptions
  by (simp_all add: c6_tenRow draws_high_def reduce_sum_def tenRow_row c6_amounts currency_def)

lemma c6_low:
  "leBase (evaluateTenPercent (transformTenPercent draws_low (Some c6_le) (Some c6_cd))
     Map.empty noOptions) = 0"
  "cdTotal (evaluateTenPercent (transformTenPercent draws_low (Some c6_le) (Some c6_cd))
     Map.empty noOptions) = 0"
  unfolding leBase_eq cdTotal_eq c6_rows config_noOptions
  by (simp_all add: c6_tenRow draws_low_def reduce_sum_def currency_def)

lemma c6_status_high:
  "status_ten (evaluateTenPercent (transformTenPercent draws_high (Some c6_le) (Some c6_cd))
     Map.empty noOptions) = OVER"
  unfolding status_ten_eq overage_eq allowedMax_eq c6_high by (simp add: currency_def)

lemma c6_status_low:
  "status_ten (evaluateTenPercent (transformTenPercent draws_low (Some c6_le) (Some c6_cd))
     Map.empty noOptions) = GROUP_PASS"
  unfolding status_ten_eq overage_eq allowedMax_eq c6_low by (simp add: currency_def)

section \<open>The dataset of the raw documents\<close>

lemma transformTridData_fields:
  "origination (transformTridData draws leData cdData) = transformSectionA leData cdData"
  "cannotShop (transformTridData draws leData cdData) = transformSectionB leData cdData"
  "tenPercent (transformTridData draws leData cdData) = transformTenPercent draws leData cdData"
  "unlimited (transformTridData draws leData cdData) = transformUnlimited leData cdData"
  by (simp_all add: transformTridData_def)

text \<open>
  Claim C6, as amended.  The evaluators and the transformers of the sections A, B, F, G
  and H are functions of their inputs.  \<open>transformTenPercent\<close> also reads
  \<open>Math.random()\<close>, once for every entry that is not a recording fee.  Two runs of
  \<open>transformTridData\<close> on the same documents return the same \<open>origination\<close>,
  \<open>cannotShop\<close> and \<open>unlimited\<close> fees and the same number of \<open>tenPercent\<close> fees, which
  agree in every field but \<open>onWhitelist\<close>; a recording fee (type E) is always on the
  whitelist; and when the two runs draw the same values, they return the same dataset and
  the ten-percent evaluation of it is the same.
\<close>

theorem C6_two_runs_agree_up_to_the_random_draws:
  assumes d1: "ds1 = transformTridData draws1 leData cdData"
    and d2: "ds2 = transformTridData draws2 leData cdData"
  shows
    "origination ds1 = origination ds2 \<and> cannotShop ds1 = cannotShop ds2 \<and>
     unlimited ds1 = unlimited ds2 \<and>
     length (tenPercent ds1) = length (tenPercent ds2) \<and>
     map (\<lambda>f. f\<lparr>onWhitelist := True\<rparr>) (tenPercent ds1) =
       map (\<lambda>f. f\<lparr>onWhitelist := True\<rparr>) (tenPercent ds2) \<and>
     (\<forall>f \<in> set (tenPercent ds1). providerType f = ProviderE \<longrightarrow> onWhitelist f) \<and>
     ((\<forall>j < length (tenPercent ds1). draws1 j = draws2 j) \<longrightarrow>
        ds1 = ds2 \<and>
        evaluateTenPercent (tenPercent ds1) overrides options =
          evaluateTenPercent (tenPercent ds2) overrides options)"
proof (intro conjI ballI impI)
  show "origination ds1 = origination ds2" "cannotShop ds1 = cannotShop ds2"
    "unlimited ds1 = unlimited ds2"
    unfolding d1 d2 transformTridData_fields by (rule refl)+
  show "length (tenPercent ds1) = length (tenPercent ds2)"
    unfolding d1 d2 transformTridData_fields transformTenPercent_def
    by (simp add: tenFeesFrom_length)
  show "map (\<lambda>f. f\<lparr>onWhitelist := True\<rparr>) (tenPercent ds1) =
        map (\<lambda>f. f\<lparr>onWhitelist := True\<rparr>) (tenPercent ds2)"
    unfolding d1 d2 transformTridData_fields transformTenPercent_def
    by (rule tenFeesFrom_up_to_onWhitelist)
next
  fix f assume "f \<in> set (tenPercent ds1)" and "providerType f = ProviderE"
  then show "onWhitelist f"
    unfolding d1 transformTridData_fields transformTenPercent_def
    by (rule tenFeesFrom_recording)
next
  assume a: "\<forall>j < length (tenPercent ds1). draws1 j = draws2 j"
  have "transformTenPercent draws1 leData cdData = transformTenPercent draws2 leData cdData"
    unfolding transformTenPercent_def
    using a unfolding d1 transformTridData_fields transformTenPercent_def tenFeesFrom_length
    by (intro tenFeesFrom_same_draws) simp
  then show eq: "ds1 = ds2" unfolding d1 d2 transformTridData_def by simp
  show "evaluateTenPercent (tenPercent ds1) overrides options =
        evaluateTenPercent (tenPercent ds2) overrides options"
    unfolding eq ..
qed

text \<open>
  Claim C6 as stated fails on the raw-document path.  On the same two documents (a title
  search of 100 in section C of the estimate and of 200 in the disclosure) a run that
  draws 0.5 puts the fee on the whitelist and a run that draws 0.1 does not: the datasets
  differ, and the ten-percent evaluation is \<open>OVER\<close> in the first run and \<open>PASS\<close> in the
  second.
\<close>

theorem C6_counterexample:
  "map onWhitelist (tenPercent (transformTridData draws_high (Some c6_le) (Some c6_cd))) = [True] \<and>
   map onWhitelist (tenPercent (transformTridData draws_low (Some c6_le) (Some c6_cd))) = [False] \<and>
   transformTridData draws_high (Some c6_le) (Some c6_cd) \<noteq>
     transformTridData draws_low (Some c6_le) (Some c6_cd) \<and>
   status_ten (evaluateTenPercent
       (tenPercent (transformTridData draws_high (Some c6_le) (Some c6_cd)))
       Map.empty noOptions) = OVER \<and>
   status_ten (evaluateTenPercent
       (tenPercent (transformTridData draws_low (Some c6_le) (Some c6_cd)))
       Map.empty noOptions) = GROUP_PASS"
proof -
  have 1: "map onWhitelist (tenPercent (transformTridData draws_high (Some c6_le) (Some c6_cd))) = [True]"
    unfolding transformTridData_fields c6_rows by (simp add: c6_amounts draws_high_def)
  have 2: "map onWhitelist (tenPercent (transformTridData draws_low (Some c6_le) (Some c6_cd))) = [False]"
    unfolding transformTridData_fields c6_rows by (simp add: c6_amounts draws_low_def)
  from 1 2 have 3: "transformTridData draws_high (Some c6_le) (Some c6_cd) \<noteq>
     transformTridData draws_low (Some c6_le) (Some c6_cd)"
    by auto
  from 1 2 3 c6_status_high c6_status_low show ?thesis
    unfolding transformTridData_fields by (intro conjI)
qed

text \<open>
  Claim C6 at the same documents: two sequences of draws that agree on the one value
  drawn give the same dataset, and the fees of the runs that draw 0.5 and 0.1 agree up to
  \<open>onWhitelist\<close>.
\<close>

theorem C6_witness:
  "length (tenPercent (transformTridData draws_high (Some c6_le) (Some c6_cd))) = 1 \<and>
   draws_high 0 = draws_mixed 0 \<and> draws_high 1 \<noteq> draws_mixed 1 \<and>
   transformTridData draws_high (Some c6_le) (Some c6_cd) =
     transformTridData draws_mixed (Some c6_le) (Some c6_cd) \<and>
   map (\<lambda>f. f\<lparr>onWhitelist := True\<rparr>)
       (tenPercent (transformTridData draws_high (Some c6_le) (Some c6_cd))) =
     map (\<lambda>f. f\<lparr>onWhitelist := True\<rparr>)
       (tenPercent (transformTridData draws_low (Some c6_le) (Some c6_cd)))"
proof -
  note a = C6_two_runs_agree_up_to_the_random_draws
             [OF refl refl, of draws_high "Some c6_le" "Some c6_cd" draws_mixed Map.empty noOptions]
  note b = C6_two_runs_agree_up_to_the_random_draws
             [OF refl refl, of draws_high "Some c6_le" "Some c6_cd" draws_low Map.empty noOptions]
  have 1: "length (tenPercent (transformTridData draws_high (Some c6_le) (Some c6_cd))) = 1"
    unfolding transformTridData_fields c6_rows by simp
  have 2: "draws_high 0 = draws_mixed 0" "draws_high 1 \<noteq> draws_mixed 1"
    by (simp_all add: draws_high_def draws_mixed_def)
  have "\<forall>j < length (tenPercent (transformTridData draws_high (Some c6_le) (Some c6_cd))).
          draws_high j = draws_mixed j"
    unfolding 1 using 2(1) by simp
  with a have 3: "transformTridData draws_high (Some c6_le) (Some c6_cd) =
     transformTridData draws_mixed (Some c6_le) (Some c6_cd)"
    by blast
  from b have 4: "map (\<lambda>f. f\<lparr>onWhitelist := True\<rparr>)
       (tenPercent (transformTridData draws_high (Some c6_le) (Some c6_cd))) =
     map (\<lambda>f. f\<lparr>onWhitelist := True\<rparr>)
       (tenPercent (transformTridData draws_low (Some c6_le) (Some c6_cd)))"
    by blast
  from 1 2 3 4 show ?thesis by (intro conjI)
qed

end
